theory Spec2Isabelle
  imports Complex_Main "HOL-Library.Monad_Syntax"
begin

section \<open>Numbers\<close>

text \<open>
  A JavaScript \<^verbatim>\<open>number\<close> is an IEEE double: \<^verbatim>\<open>NaN\<close>, the two infinities, or a
  finite value. Finite values are carried as rationals and the two zeros are one value
  (the handlers below never divide by a zero they have not tested for, and never look at
  the sign of a zero). The special values follow the IEEE rules. A finite result is the
  exact one: its rounding to 53 bits, and its overflow to an infinity, are not part of
  this model; where a decimal text becomes a number (\<open>toDouble\<close>), overflow is. The
  theorems below therefore state what the handlers compute with the operations the code
  performs, one for one, and fix figures only where they are small integers, which
  doubles hold exactly.
\<close>

datatype number = NaN | PosInf | NegInf | Fin rat

fun negN :: "number \<Rightarrow> number" where
  "negN NaN = NaN"
| "negN PosInf = NegInf"
| "negN NegInf = PosInf"
| "negN (Fin a) = Fin (- a)"

fun addN :: "number \<Rightarrow> number \<Rightarrow> number" where
  "addN NaN y = NaN"
| "addN x NaN = NaN"
| "addN PosInf NegInf = NaN"
| "addN NegInf PosInf = NaN"
| "addN PosInf y = PosInf"
| "addN NegInf y = NegInf"
| "addN (Fin a) PosInf = PosInf"
| "addN (Fin a) NegInf = NegInf"
| "addN (Fin a) (Fin b) = Fin (a + b)"

text \<open>An infinity times, or a finite value over zero, a finite value of the given sign.\<close>

definition infinityBySign :: "rat \<Rightarrow> number" where
  "infinityBySign a = (if a = 0 then NaN else if 0 < a then PosInf else NegInf)"

fun mulN :: "number \<Rightarrow> number \<Rightarrow> number" where
  "mulN NaN y = NaN"
| "mulN x NaN = NaN"
| "mulN PosInf PosInf = PosInf"
| "mulN PosInf NegInf = NegInf"
| "mulN NegInf PosInf = NegInf"
| "mulN NegInf NegInf = PosInf"
| "mulN PosInf (Fin b) = infinityBySign b"
| "mulN NegInf (Fin b) = infinityBySign (- b)"
| "mulN (Fin a) PosInf = infinityBySign a"
| "mulN (Fin a) NegInf = infinityBySign (- a)"
| "mulN (Fin a) (Fin b) = Fin (a * b)"

fun divN :: "number \<Rightarrow> number \<Rightarrow> number" where
  "divN NaN y = NaN"
| "divN x NaN = NaN"
| "divN PosInf PosInf = NaN"
| "divN PosInf NegInf = NaN"
| "divN NegInf PosInf = NaN"
| "divN NegInf NegInf = NaN"
| "divN PosInf (Fin b) = (if 0 \<le> b then PosInf else NegInf)"
| "divN NegInf (Fin b) = (if 0 \<le> b then NegInf else PosInf)"
| "divN (Fin a) PosInf = Fin 0"
| "divN (Fin a) NegInf = Fin 0"
| "divN (Fin a) (Fin b) = (if b = 0 then infinityBySign a else Fin (a / b))"

fun lessN :: "number \<Rightarrow> number \<Rightarrow> bool" where
  "lessN NaN y = False"
| "lessN x NaN = False"
| "lessN PosInf y = False"
| "lessN x PosInf = True"
| "lessN NegInf NegInf = False"
| "lessN NegInf (Fin b) = True"
| "lessN (Fin a) NegInf = False"
| "lessN (Fin a) (Fin b) = (a < b)"

text \<open>The operator \<^verbatim>\<open>===\<close> on numbers: \<^verbatim>\<open>NaN\<close> equals nothing.\<close>

definition strictEq :: "number \<Rightarrow> number \<Rightarrow> bool" where
  "strictEq x y = (x \<noteq> NaN \<and> y \<noteq> NaN \<and> x = y)"

instantiation number :: "{zero, one, plus, uminus, minus, times, inverse, abs, ord}"
begin

definition zero_number :: number where "zero_number = Fin 0"

definition one_number :: number where "one_number = Fin 1"

definition plus_number :: "number \<Rightarrow> number \<Rightarrow> number" where
  "plus_number x y = addN x y"

definition uminus_number :: "number \<Rightarrow> number" where
  "uminus_number x = negN x"

definition minus_number :: "number \<Rightarrow> number \<Rightarrow> number" where
  "minus_number x y = addN x (negN y)"

definition times_number :: "number \<Rightarrow> number \<Rightarrow> number" where
  "times_number x y = mulN x y"

definition divide_number :: "number \<Rightarrow> number \<Rightarrow> number" where
  "divide_number x y = divN x y"

definition inverse_number :: "number \<Rightarrow> number" where
  "inverse_number x = divN (Fin 1) x"

definition less_number :: "number \<Rightarrow> number \<Rightarrow> bool" where
  "less_number x y = lessN x y"

definition less_eq_number :: "number \<Rightarrow> number \<Rightarrow> bool" where
  "less_eq_number x y = (lessN x y \<or> strictEq x y)"

definition abs_number :: "number \<Rightarrow> number" where
  "abs_number x = (if lessN x (Fin 0) then negN x else x)"

instance ..

end

text \<open>\<^verbatim>\<open>Math.max\<close> and \<^verbatim>\<open>Math.min\<close>: \<^verbatim>\<open>NaN\<close> when an argument is.\<close>

definition mathMax :: "number \<Rightarrow> number \<Rightarrow> number" where
  "mathMax x y = (if x = NaN \<or> y = NaN then NaN else if x < y then y else x)"

definition mathMin :: "number \<Rightarrow> number \<Rightarrow> number" where
  "mathMin x y = (if x = NaN \<or> y = NaN then NaN else if y < x then y else x)"

text \<open>
  The double a decimal text stands for, as \<^verbatim>\<open>parseFloat\<close> and \<^verbatim>\<open>JSON.parse\<close> compute
  it: a value of \<open>2^1024 - 2^970\<close> or more, halfway between the largest double and
  \<open>2^1024\<close>, is read as an infinity.
\<close>

definition toDouble :: "rat \<Rightarrow> number" where
  "toDouble q =
     (if 2 ^ 1024 - 2 ^ 970 \<le> q then PosInf
      else if q \<le> - (2 ^ 1024 - 2 ^ 970) then NegInf else Fin q)"

definition isFiniteNumber :: "number \<Rightarrow> bool" where
  "isFiniteNumber x = (case x of Fin q \<Rightarrow> \<bar>q\<bar> < 2 ^ 1024 - 2 ^ 970 | _ \<Rightarrow> False)"

section \<open>Data model of the finance tracker\<close>

text \<open>
  The component \<^verbatim>\<open>FinanceTracker\<close> of
  \<^verbatim>\<open>src/components/components-finance-tracker.tsx\<close> keeps the ledger in React
  state variables and changes them in event handlers. The embedding below turns the
  state variables into one record, every handler into a function from the state of the
  render it runs in to the next state and the list of effects it raises, and the
  interfaces of lines 47--119 into records and datatypes.

  Fields of different interfaces that share a name carry a prefix (\<open>t_\<close> for Transaction, \<open>g_\<close> for Goal,
  \<open>u_\<close> for UserData, \<open>b_\<close>, \<open>i_\<close>, \<open>c_\<close>, \<open>d_\<close> for the others, \<open>n_\<close> for the form).
\<close>

datatype tx_type = Income | Expense

datatype account = Chequing | Savings

record Transaction =
  t_id :: number
  t_date :: string
  t_description :: string
  t_amount :: number
  t_type :: tx_type
  t_category :: string
  t_account :: account

record Goal =
  g_id :: number
  g_name :: string
  g_target :: number
  g_current :: number
  g_deadline :: string

record UserData =
  u_name :: string
  u_chequingBalance :: string
  u_savingsBalance :: string
  u_monthlyIncome :: string
  u_monthlyExpenses :: string

record BudgetCategory =
  b_category :: string
  b_limit :: number

datatype investment_type = RRSP | TFSA | GIC | OSAP

record Investment =
  i_id :: number
  i_type :: investment_type
  i_balance :: number
  i_interestRate :: "number option"
  i_maturityDate :: "string option"

record Cryptocurrency =
  c_id :: number
  c_name :: string
  c_symbol :: string
  c_amount :: number
  c_purchasePrice :: number
  c_currentPrice :: number

text \<open>The interface \<^verbatim>\<open>FinancialData\<close> (lines 101--119): every key is optional.\<close>

record UserDataPartial =
  p_name :: "string option"
  p_chequingBalance :: "string option"
  p_savingsBalance :: "string option"
  p_monthlyIncome :: "string option"
  p_monthlyExpenses :: "string option"

record FinancialData =
  d_chequingBalance :: "number option"
  d_savingsBalance :: "number option"
  d_income :: "number option"
  d_expenses :: "number option"
  d_transactions :: "Transaction list option"
  d_goals :: "Goal list option"
  d_budgetCategories :: "BudgetCategory list option"
  d_investments :: "Investment list option"
  d_cryptocurrencies :: "Cryptocurrency list option"
  d_userData :: "UserDataPartial option"
  d_financialHealthScore :: "number option"

text \<open>
  The state variables of lines 155--172 that make the ledger. The form being typed
  (\<^verbatim>\<open>newTransaction\<close>) is the input of \<open>addTransaction\<close> below, and the field
  errors of the questionnaire are an effect of its handler; the active tab and the
  settings dialog are presentation.
\<close>

record state =
  chequingBalance :: number
  savingsBalance :: number
  income :: number
  expenses :: number
  transactions :: "Transaction list"
  goals :: "Goal list"
  showQuestionnaire :: bool
  userData :: UserData
  budgetCategories :: "BudgetCategory list"
  financialHealthScore :: number
  investments :: "Investment list"
  cryptocurrencies :: "Cryptocurrency list"

text \<open>The form of line 161.\<close>

record NewTransaction =
  n_description :: string
  n_amount :: string
  n_type :: tx_type
  n_category :: string
  n_date :: string
  n_account :: account

section \<open>JSON documents\<close>

text \<open>
  What \<^verbatim>\<open>JSON.parse\<close> returns and \<^verbatim>\<open>JSON.stringify\<close> takes. Both are the
  platform's; the model starts at the parsed value.
\<close>

datatype json =
  JNull
  | JBool bool
  | JNum rat
  | JStr string
  | JArr "json list"
  | JObj "(string \<times> json) list"

text \<open>
  Reading a property of a parsed value that is not \<^verbatim>\<open>null\<close>: \<open>None\<close> is
  \<^verbatim>\<open>undefined\<close>. When a key is repeated in the text, \<^verbatim>\<open>JSON.parse\<close> keeps the last
  one. Numbers, strings, booleans and arrays have none of the keys the component reads.
\<close>

fun getProp :: "json \<Rightarrow> string \<Rightarrow> json option" where
  "getProp (JObj kvs) k = map_of (rev kvs) k"
| "getProp _ k = None"

definition typeStr :: "tx_type \<Rightarrow> string" where
  "typeStr ty = (case ty of Income \<Rightarrow> ''income'' | Expense \<Rightarrow> ''expense'')"

definition accountStr :: "account \<Rightarrow> string" where
  "accountStr a = (case a of Chequing \<Rightarrow> ''chequing'' | Savings \<Rightarrow> ''savings'')"

definition investmentTypeStr :: "investment_type \<Rightarrow> string" where
  "investmentTypeStr ty =
     (case ty of RRSP \<Rightarrow> ''RRSP'' | TFSA \<Rightarrow> ''TFSA'' | GIC \<Rightarrow> ''GIC'' | OSAP \<Rightarrow> ''OSAP'')"

text \<open>
  The documents \<^verbatim>\<open>JSON.stringify\<close> writes for the values of the state. A finite
  number is written as a decimal that reads back as the same number; \<^verbatim>\<open>NaN\<close> and the
  infinities are written as \<^verbatim>\<open>null\<close>.
\<close>

definition numJson :: "number \<Rightarrow> json" where
  "numJson x = (case x of Fin q \<Rightarrow> JNum q | _ \<Rightarrow> JNull)"

definition transactionJson :: "Transaction \<Rightarrow> json" where
  "transactionJson t = JObj
     [(''id'', numJson (t_id t)), (''date'', JStr (t_date t)),
      (''description'', JStr (t_description t)), (''amount'', numJson (t_amount t)),
      (''type'', JStr (typeStr (t_type t))), (''category'', JStr (t_category t)),
      (''account'', JStr (accountStr (t_account t)))]"

definition goalJson :: "Goal \<Rightarrow> json" where
  "goalJson g = JObj
     [(''id'', numJson (g_id g)), (''name'', JStr (g_name g)), (''target'', numJson (g_target g)),
      (''current'', numJson (g_current g)), (''deadline'', JStr (g_deadline g))]"

definition budgetCategoryJson :: "BudgetCategory \<Rightarrow> json" where
  "budgetCategoryJson b = JObj [(''category'', JStr (b_category b)), (''limit'', numJson (b_limit b))]"

text \<open>A property whose value is \<^verbatim>\<open>undefined\<close> is left out of the document.\<close>

definition investmentJson :: "Investment \<Rightarrow> json" where
  "investmentJson i = JObj
     ([(''id'', numJson (i_id i)), (''type'', JStr (investmentTypeStr (i_type i))),
       (''balance'', numJson (i_balance i))]
      @ (case i_interestRate i of None \<Rightarrow> [] | Some r \<Rightarrow> [(''interestRate'', numJson r)])
      @ (case i_maturityDate i of None \<Rightarrow> [] | Some d \<Rightarrow> [(''maturityDate'', JStr d)]))"

definition cryptocurrencyJson :: "Cryptocurrency \<Rightarrow> json" where
  "cryptocurrencyJson c = JObj
     [(''id'', numJson (c_id c)), (''name'', JStr (c_name c)), (''symbol'', JStr (c_symbol c)),
      (''amount'', numJson (c_amount c)), (''purchasePrice'', numJson (c_purchasePrice c)),
      (''currentPrice'', numJson (c_currentPrice c))]"

definition userDataJson :: "UserData \<Rightarrow> json" where
  "userDataJson u = JObj
     [(''name'', JStr (u_name u)), (''chequingBalance'', JStr (u_chequingBalance u)),
      (''savingsBalance'', JStr (u_savingsBalance u)),
      (''monthlyIncome'', JStr (u_monthlyIncome u)),
      (''monthlyExpenses'', JStr (u_monthlyExpenses u))]"

text \<open>
  The object literal of \<^verbatim>\<open>saveData\<close> (lines 211--223) and of \<^verbatim>\<open>exportData\<close>
  (lines 522--534): the same eleven keys in the same order.
\<close>

definition dataToSave :: "state \<Rightarrow> json" where
  "dataToSave s = JObj
     [(''chequingBalance'', numJson (chequingBalance s)),
      (''savingsBalance'', numJson (savingsBalance s)),
      (''income'', numJson (income s)),
      (''expenses'', numJson (expenses s)),
      (''transactions'', JArr (map transactionJson (transactions s))),
      (''goals'', JArr (map goalJson (goals s))),
      (''budgetCategories'', JArr (map budgetCategoryJson (budgetCategories s))),
      (''investments'', JArr (map investmentJson (investments s))),
      (''cryptocurrencies'', JArr (map cryptocurrencyJson (cryptocurrencies s))),
      (''userData'', userDataJson (userData s)),
      (''financialHealthScore'', numJson (financialHealthScore s))]"

text \<open>
  \<^verbatim>\<open>exportData\<close>: the document offered for download as
  \<^verbatim>\<open>financial_data.json\<close>; the link element is presentation.
\<close>

definition exportData :: "state \<Rightarrow> json" where
  "exportData s = dataToSave s"

section \<open>Validation and the health score\<close>

definition isDigit :: "char \<Rightarrow> bool" where
  "isDigit c = (c \<in> set ''0123456789'')"

text \<open>
  The pattern \<^verbatim>\<open>/^\d+(\.\d{1,2})?$/\<close> of line 130: one digit or more, then nothing,
  or a point and one or two digits.
\<close>

definition matchesNumberPattern :: "string \<Rightarrow> bool" where
  "matchesNumberPattern v =
     (takeWhile isDigit v \<noteq> [] \<and>
      (case dropWhile isDigit v of
         [] \<Rightarrow> True
       | c # fr \<Rightarrow> c = CHR ''.'' \<and> (length fr = 1 \<or> length fr = 2) \<and> list_all isDigit fr))"

definition digitsValue :: "string \<Rightarrow> nat" where
  "digitsValue ds = foldl (\<lambda>acc c. 10 * acc + (of_char c - 48)) 0 ds"

text \<open>
  \<^verbatim>\<open>parseFloat\<close> on the strings the component gives it: every call stands behind the
  pattern above (lines 130, 250--253, 284), where the text is a decimal numeral and the
  result the double it stands for, an infinity from some 309 digits on.
\<close>

definition parseFloat :: "string \<Rightarrow> number" where
  "parseFloat v =
     (let fr = takeWhile isDigit (drop 1 (dropWhile isDigit v))
      in toDouble (of_nat (digitsValue (takeWhile isDigit v))
                   + of_nat (digitsValue fr) / 10 ^ length fr))"

definition validateNumber :: "string \<Rightarrow> bool" where
  "validateNumber v = (matchesNumberPattern v \<and> parseFloat v \<ge> 0)"

text \<open>
  The pattern \<^verbatim>\<open>/^[a-zA-Z\s]{2,30}$/\<close> of line 134. A \<open>char\<close> is a code unit below
  256, and the class \<^verbatim>\<open>\s\<close> has seven members there: tab, line feed, vertical tab,
  form feed, carriage return, space and the no-break space U+00A0. Its members from
  U+1680 on (among them U+2028, U+2029 and U+FEFF) have no \<open>char\<close>: a name with one of
  them is not a string of this model.
\<close>

definition isNameChar :: "char \<Rightarrow> bool" where
  "isNameChar c =
     (let n = (of_char c :: nat)
      in (65 \<le> n \<and> n \<le> 90) \<or> (97 \<le> n \<and> n \<le> 122) \<or> n = 32 \<or> (9 \<le> n \<and> n \<le> 13)
         \<or> n = 160)"

definition validateName :: "string \<Rightarrow> bool" where
  "validateName v = (2 \<le> length v \<and> length v \<le> 30 \<and> list_all isNameChar v)"

text \<open>\<^verbatim>\<open>calculateFinancialHealth\<close>, lines 137--151.\<close>

definition calculateFinancialHealth ::
    "number \<Rightarrow> number \<Rightarrow> number \<Rightarrow> number \<Rightarrow> number \<Rightarrow> number" where
  "calculateFinancialHealth inc exps savings invs debt =
     (if strictEq inc 0 then 0
      else
        let savingsRate = savings / inc;
            investmentRate = invs / inc;
            debtToIncomeRatio = debt / inc;
            expenseRatio = exps / inc;
            score = 0;
            score = score + savingsRate * Fin 30;
            score = score + investmentRate * Fin 20;
            score = score + (1 - debtToIncomeRatio) * Fin 25;
            score = score + (1 - expenseRatio) * Fin 25
        in mathMin (mathMax (score * Fin 100) 0) (Fin 100))"

section \<open>Effects\<close>

text \<open>
  What a handler does besides setting state: the field errors it shows, the document it
  writes to local storage, the notice it raises.
\<close>

datatype field = FName | FChequingBalance | FSavingsBalance | FMonthlyIncome | FMonthlyExpenses

datatype notice =
  Welcome
  | InvalidAmount
  | TransactionAdded
  | FillAllFields
  | TransactionDeleted
  | ImportSuccess
  | ImportError

text \<open>
  The notices stand for the texts of the toasts: \<open>Welcome\<close> for line 271,
  \<open>InvalidAmount\<close> for "Please enter a valid amount", \<open>TransactionAdded\<close> for
  "Transaction added successfully", \<open>FillAllFields\<close> for "Please fill in all fields for
  the transaction", \<open>TransactionDeleted\<close> for "Transaction deleted successfully",
  \<open>ImportSuccess\<close> for "Data imported successfully" and \<open>ImportError\<close> for "Error
  importing data. Please check the file format."
\<close>

datatype effect = SetErrors "field list" | Persist json | Toast notice

text \<open>
  \<^verbatim>\<open>saveData\<close> (lines 210--225) reads the state variables of the render in which the
  handler was created: the setters called before it in the same handler do not change
  them. Its argument is therefore the state the handler started from.
\<close>

definition saveData :: "state \<Rightarrow> effect" where
  "saveData s = Persist (dataToSave s)"

section \<open>The handlers\<close>

text \<open>
  \<^verbatim>\<open>validateUserData\<close> (lines 227--246): the fields in error; the source's result
  \<^verbatim>\<open>true\<close> is the empty list.
\<close>

definition validateUserData :: "UserData \<Rightarrow> field list" where
  "validateUserData u =
     (if \<not> validateName (u_name u) then [FName] else [])
     @ (if \<not> validateNumber (u_chequingBalance u) then [FChequingBalance] else [])
     @ (if \<not> validateNumber (u_savingsBalance u) then [FSavingsBalance] else [])
     @ (if \<not> validateNumber (u_monthlyIncome u) then [FMonthlyIncome] else [])
     @ (if \<not> validateNumber (u_monthlyExpenses u) then [FMonthlyExpenses] else [])"

text \<open>
  \<^verbatim>\<open>handleQuestionnaireSubmit\<close> (lines 248--274); \<open>currentDate\<close> is the day the
  clock gives.
\<close>

definition handleQuestionnaireSubmit :: "string \<Rightarrow> state \<Rightarrow> state \<times> effect list" where
  "handleQuestionnaireSubmit currentDate s =
     (let errs = validateUserData (userData s) in
      if errs = [] then
        let initialChequingBalance = parseFloat (u_chequingBalance (userData s));
            initialSavingsBalance = parseFloat (u_savingsBalance (userData s));
            monthlyIncome = parseFloat (u_monthlyIncome (userData s));
            monthlyExpenses = parseFloat (u_monthlyExpenses (userData s))
        in (s\<lparr>chequingBalance := initialChequingBalance,
               savingsBalance := initialSavingsBalance,
               income := monthlyIncome,
               expenses := monthlyExpenses,
               transactions :=
                 [\<lparr>t_id = Fin 1, t_date = currentDate, t_description = ''Initial Chequing Balance'',
                   t_amount = initialChequingBalance, t_type = Income, t_category = ''Other'',
                   t_account = Chequing\<rparr>,
                  \<lparr>t_id = Fin 2, t_date = currentDate, t_description = ''Initial Savings Balance'',
                   t_amount = initialSavingsBalance, t_type = Income, t_category = ''Other'',
                   t_account = Savings\<rparr>,
                  \<lparr>t_id = Fin 3, t_date = currentDate, t_description = ''Monthly Income'',
                   t_amount = monthlyIncome, t_type = Income, t_category = ''Other'',
                   t_account = Chequing\<rparr>,
                  \<lparr>t_id = Fin 4, t_date = currentDate, t_description = ''Monthly Expenses'',
                   t_amount = - monthlyExpenses, t_type = Expense, t_category = ''Other'',
                   t_account = Chequing\<rparr>],
               showQuestionnaire := False\<rparr>,
            [SetErrors [], saveData s, Toast Welcome])
      else (s, [SetErrors errs]))"

text \<open>\<^verbatim>\<open>updateGoalProgress\<close> (lines 325--332).\<close>

definition updateGoalProgress :: "number \<Rightarrow> state \<Rightarrow> state" where
  "updateGoalProgress amount s =
     s\<lparr>goals := map (\<lambda>goal. goal\<lparr>g_current := g_current goal + (if amount > 0 then amount else 0)\<rparr>)
                   (goals s)\<rparr>"

text \<open>\<^verbatim>\<open>updateFinances\<close> (lines 311--323).\<close>

definition updateFinances :: "number \<Rightarrow> account \<Rightarrow> state \<Rightarrow> state" where
  "updateFinances amount acct s =
     (let s1 = (if acct = Chequing then s\<lparr>chequingBalance := chequingBalance s + amount\<rparr>
                else s\<lparr>savingsBalance := savingsBalance s + amount\<rparr>);
          s2 = (if amount > 0 then s1\<lparr>income := income s1 + amount\<rparr>
                else s1\<lparr>expenses := expenses s1 - amount\<rparr>)
      in updateGoalProgress amount s2)"

text \<open>
  \<^verbatim>\<open>addTransaction\<close> (lines 276--307). A string is truthy when it is not empty;
  the account of the form is one of the two accounts, hence always truthy. Emptying the
  form after a success (line 297) changes the next input, not the ledger.
\<close>

definition addTransaction :: "NewTransaction \<Rightarrow> state \<Rightarrow> state \<times> effect list" where
  "addTransaction newTransaction s =
     (if n_description newTransaction \<noteq> [] \<and> n_amount newTransaction \<noteq> []
         \<and> n_category newTransaction \<noteq> [] then
        if \<not> validateNumber (n_amount newTransaction) then (s, [Toast InvalidAmount])
        else
          let amount = (if n_type newTransaction = Income then parseFloat (n_amount newTransaction)
                        else - parseFloat (n_amount newTransaction));
              transaction =
                \<lparr>t_id = Fin (of_nat (length (transactions s))) + 1,
                 t_date = n_date newTransaction,
                 t_description = n_description newTransaction,
                 t_amount = amount,
                 t_type = n_type newTransaction,
                 t_category = n_category newTransaction,
                 t_account = n_account newTransaction\<rparr>;
              updatedTransactions = transaction # transactions s
          in (updateFinances amount (n_account newTransaction)
                (s\<lparr>transactions := updatedTransactions\<rparr>),
              [saveData s, Toast TransactionAdded])
      else (s, [Toast FillAllFields]))"

text \<open>\<^verbatim>\<open>deleteTransaction\<close> (lines 335--346).\<close>

definition deleteTransaction :: "number \<Rightarrow> state \<Rightarrow> state \<times> effect list" where
  "deleteTransaction i s =
     (case find (\<lambda>t. strictEq (t_id t) i) (transactions s) of
        Some transactionToDelete \<Rightarrow>
          let updatedTransactions = filter (\<lambda>t. \<not> strictEq (t_id t) i) (transactions s)
          in (updateFinances (- t_amount transactionToDelete) (t_account transactionToDelete)
                (s\<lparr>transactions := updatedTransactions\<rparr>),
              [saveData s, Toast TransactionDeleted])
      | None \<Rightarrow> (s, []))"

text \<open>
  The effect of lines 182--187, which React runs after a render in which one of its six
  inputs has changed.
\<close>

definition recomputeHealth :: "state \<Rightarrow> state" where
  "recomputeHealth s =
     (let totalInvestments = foldl (\<lambda>sum inv. sum + i_balance inv) 0 (investments s);
          totalCryptoValue =
            foldl (\<lambda>sum crypto. sum + c_amount crypto * c_currentPrice crypto) 0 (cryptocurrencies s);
          score = calculateFinancialHealth (income s) (expenses s) (savingsBalance s)
                    (totalInvestments + totalCryptoValue) (mathMax 0 (- chequingBalance s))
      in s\<lparr>financialHealthScore := score\<rparr>)"

text \<open>
  One user action on the ledger: the handler runs, then the effect above. A sequence of
  actions is run from left to right.
\<close>

datatype action = AddTransaction NewTransaction | DeleteTransaction number

fun dispatch :: "state \<Rightarrow> action \<Rightarrow> state" where
  "dispatch s (AddTransaction newTransaction) = recomputeHealth (fst (addTransaction newTransaction s))"
| "dispatch s (DeleteTransaction i) = recomputeHealth (fst (deleteTransaction i s))"

definition run :: "action list \<Rightarrow> state \<Rightarrow> state" where
  "run acts s = foldl dispatch s acts"

section \<open>Import\<close>

text \<open>
  \<^verbatim>\<open>updateAllData\<close> takes what \<^verbatim>\<open>JSON.parse\<close> returned at the type
  \<^verbatim>\<open>FinancialData\<close> without looking at it. The functions below read a parsed document
  at that type: a key that is absent, or \<^verbatim>\<open>null\<close> where the source reads it through
  \<^verbatim>\<open>??\<close>, is \<open>None\<close>; a key whose value is not of the declared type has no reading
  and the whole document has none. The code stores such a value all the same, and the
  state variable then holds what its declared type excludes (see \<open>stored\<close> below).
\<close>

definition asNum :: "json \<Rightarrow> number option" where
  "asNum v = (case v of JNum r \<Rightarrow> Some (toDouble r) | _ \<Rightarrow> None)"

definition asStr :: "json \<Rightarrow> string option" where
  "asStr v = (case v of JStr x \<Rightarrow> Some x | _ \<Rightarrow> None)"

definition asList :: "(json \<Rightarrow> 'a option) \<Rightarrow> json \<Rightarrow> 'a list option" where
  "asList dec v = (case v of JArr vs \<Rightarrow> those (map dec vs) | _ \<Rightarrow> None)"

definition asType :: "json \<Rightarrow> tx_type option" where
  "asType v = (if v = JStr ''income'' then Some Income
               else if v = JStr ''expense'' then Some Expense else None)"

definition asAccount :: "json \<Rightarrow> account option" where
  "asAccount v = (if v = JStr ''chequing'' then Some Chequing
                  else if v = JStr ''savings'' then Some Savings else None)"

definition asInvestmentType :: "json \<Rightarrow> investment_type option" where
  "asInvestmentType v =
     (if v = JStr ''RRSP'' then Some RRSP
      else if v = JStr ''TFSA'' then Some TFSA
      else if v = JStr ''GIC'' then Some GIC
      else if v = JStr ''OSAP'' then Some OSAP else None)"

text \<open>A key the interface requires, a key it marks optional, and a key read through \<^verbatim>\<open>??\<close>.\<close>

definition required :: "(json \<Rightarrow> 'a option) \<Rightarrow> json option \<Rightarrow> 'a option" where
  "required dec x = (case x of None \<Rightarrow> None | Some v \<Rightarrow> dec v)"

definition optional :: "(json \<Rightarrow> 'a option) \<Rightarrow> json option \<Rightarrow> 'a option option" where
  "optional dec x = (case x of None \<Rightarrow> Some None | Some v \<Rightarrow> map_option Some (dec v))"

definition nullish :: "(json \<Rightarrow> 'a option) \<Rightarrow> json option \<Rightarrow> 'a option option" where
  "nullish dec x =
     (case x of None \<Rightarrow> Some None | Some JNull \<Rightarrow> Some None | Some v \<Rightarrow> map_option Some (dec v))"

definition asTransaction :: "json \<Rightarrow> Transaction option" where
  "asTransaction v = do {
     i \<leftarrow> required asNum (getProp v ''id'');
     d \<leftarrow> required asStr (getProp v ''date'');
     ds \<leftarrow> required asStr (getProp v ''description'');
     a \<leftarrow> required asNum (getProp v ''amount'');
     ty \<leftarrow> required asType (getProp v ''type'');
     c \<leftarrow> required asStr (getProp v ''category'');
     ac \<leftarrow> required asAccount (getProp v ''account'');
     Some \<lparr>t_id = i, t_date = d, t_description = ds, t_amount = a, t_type = ty,
           t_category = c, t_account = ac\<rparr>
   }"

definition asGoal :: "json \<Rightarrow> Goal option" where
  "asGoal v = do {
     i \<leftarrow> required asNum (getProp v ''id'');
     n \<leftarrow> required asStr (getProp v ''name'');
     t \<leftarrow> required asNum (getProp v ''target'');
     c \<leftarrow> required asNum (getProp v ''current'');
     d \<leftarrow> required asStr (getProp v ''deadline'');
     Some \<lparr>g_id = i, g_name = n, g_target = t, g_current = c, g_deadline = d\<rparr>
   }"

definition asBudgetCategory :: "json \<Rightarrow> BudgetCategory option" where
  "asBudgetCategory v = do {
     c \<leftarrow> required asStr (getProp v ''category'');
     l \<leftarrow> required asNum (getProp v ''limit'');
     Some \<lparr>b_category = c, b_limit = l\<rparr>
   }"

definition asInvestment :: "json \<Rightarrow> Investment option" where
  "asInvestment v = do {
     i \<leftarrow> required asNum (getProp v ''id'');
     ty \<leftarrow> required asInvestmentType (getProp v ''type'');
     b \<leftarrow> required asNum (getProp v ''balance'');
     r \<leftarrow> optional asNum (getProp v ''interestRate'');
     m \<leftarrow> optional asStr (getProp v ''maturityDate'');
     Some \<lparr>i_id = i, i_type = ty, i_balance = b, i_interestRate = r, i_maturityDate = m\<rparr>
   }"

definition asCryptocurrency :: "json \<Rightarrow> Cryptocurrency option" where
  "asCryptocurrency v = do {
     i \<leftarrow> required asNum (getProp v ''id'');
     n \<leftarrow> required asStr (getProp v ''name'');
     sy \<leftarrow> required asStr (getProp v ''symbol'');
     a \<leftarrow> required asNum (getProp v ''amount'');
     pp \<leftarrow> required asNum (getProp v ''purchasePrice'');
     cp \<leftarrow> required asNum (getProp v ''currentPrice'');
     Some \<lparr>c_id = i, c_name = n, c_symbol = sy, c_amount = a, c_purchasePrice = pp,
           c_currentPrice = cp\<rparr>
   }"

definition asUserDataPartial :: "json \<Rightarrow> UserDataPartial option" where
  "asUserDataPartial v = do {
     n \<leftarrow> nullish asStr (getProp v ''name'');
     c \<leftarrow> nullish asStr (getProp v ''chequingBalance'');
     sv \<leftarrow> nullish asStr (getProp v ''savingsBalance'');
     mi \<leftarrow> nullish asStr (getProp v ''monthlyIncome'');
     me \<leftarrow> nullish asStr (getProp v ''monthlyExpenses'');
     Some \<lparr>p_name = n, p_chequingBalance = c, p_savingsBalance = sv, p_monthlyIncome = mi,
           p_monthlyExpenses = me\<rparr>
   }"

definition asFinancialData :: "json \<Rightarrow> FinancialData option" where
  "asFinancialData v = do {
     cb \<leftarrow> nullish asNum (getProp v ''chequingBalance'');
     sb \<leftarrow> nullish asNum (getProp v ''savingsBalance'');
     inc \<leftarrow> nullish asNum (getProp v ''income'');
     ex \<leftarrow> nullish asNum (getProp v ''expenses'');
     ts \<leftarrow> nullish (asList asTransaction) (getProp v ''transactions'');
     gs \<leftarrow> nullish (asList asGoal) (getProp v ''goals'');
     bs \<leftarrow> nullish (asList asBudgetCategory) (getProp v ''budgetCategories'');
     is \<leftarrow> nullish (asList asInvestment) (getProp v ''investments'');
     cs \<leftarrow> nullish (asList asCryptocurrency) (getProp v ''cryptocurrencies'');
     ud \<leftarrow> nullish asUserDataPartial (getProp v ''userData'');
     fh \<leftarrow> nullish asNum (getProp v ''financialHealthScore'');
     Some \<lparr>d_chequingBalance = cb, d_savingsBalance = sb, d_income = inc, d_expenses = ex,
           d_transactions = ts, d_goals = gs, d_budgetCategories = bs, d_investments = is,
           d_cryptocurrencies = cs, d_userData = ud, d_financialHealthScore = fh\<rparr>
   }"

text \<open>The operator \<^verbatim>\<open>??\<close>, and \<^verbatim>\<open>?.\<close> followed by a key.\<close>

definition coalesce :: "'a option \<Rightarrow> 'a \<Rightarrow> 'a" where
  "coalesce x d = (case x of None \<Rightarrow> d | Some v \<Rightarrow> v)"

definition chain :: "'a option \<Rightarrow> ('a \<Rightarrow> 'b option) \<Rightarrow> 'b option" where
  "chain x f = (case x of None \<Rightarrow> None | Some v \<Rightarrow> f v)"

text \<open>\<^verbatim>\<open>updateAllData\<close> (lines 189--208).\<close>

definition updateAllData :: "FinancialData \<Rightarrow> state \<Rightarrow> state" where
  "updateAllData data s =
     s\<lparr>chequingBalance := coalesce (d_chequingBalance data) 0,
       savingsBalance := coalesce (d_savingsBalance data) 0,
       income := coalesce (d_income data) 0,
       expenses := coalesce (d_expenses data) 0,
       transactions := coalesce (d_transactions data) [],
       goals := coalesce (d_goals data) [],
       budgetCategories := coalesce (d_budgetCategories data) [],
       investments := coalesce (d_investments data) [],
       cryptocurrencies := coalesce (d_cryptocurrencies data) [],
       userData :=
         \<lparr>u_name = coalesce (chain (d_userData data) p_name) [],
          u_chequingBalance = coalesce (chain (d_userData data) p_chequingBalance) ''0'',
          u_savingsBalance = coalesce (chain (d_userData data) p_savingsBalance) ''0'',
          u_monthlyIncome = coalesce (chain (d_userData data) p_monthlyIncome) ''0'',
          u_monthlyExpenses = coalesce (chain (d_userData data) p_monthlyExpenses) ''0''\<rparr>,
       financialHealthScore := coalesce (d_financialHealthScore data) 0,
       showQuestionnaire := False\<rparr>"

text \<open>
  What the state variables hold after an import: a state of the declared types, or, when
  the document has no reading at those types, what \<^verbatim>\<open>updateAllData\<close> took from the
  document as it stands (the value of every key that is there and not \<^verbatim>\<open>null\<close>, the
  default for the others).
\<close>

datatype stored = Typed state | Untyped json

text \<open>
  \<^verbatim>\<open>importData\<close> (lines 545--566), from the text of the chosen file on. The first
  argument is the result of \<^verbatim>\<open>JSON.parse\<close>: \<open>None\<close> when it throws (the text is
  not JSON). On \<^verbatim>\<open>null\<close> the first property access of \<^verbatim>\<open>updateAllData\<close> throws
  before any setter is called. Both exceptions reach the \<^verbatim>\<open>catch\<close>. On every other
  document \<^verbatim>\<open>updateAllData\<close> runs to its end, and \<^verbatim>\<open>saveData\<close> and the success
  notice follow.
\<close>

definition importData :: "json option \<Rightarrow> state \<Rightarrow> stored \<times> effect list" where
  "importData parsed s =
     (case parsed of
        None \<Rightarrow> (Typed s, [Toast ImportError])
      | Some JNull \<Rightarrow> (Typed s, [Toast ImportError])
      | Some importedData \<Rightarrow>
          (case asFinancialData importedData of
             None \<Rightarrow> (Untyped importedData, [saveData s, Toast ImportSuccess])
           | Some data \<Rightarrow> (Typed (updateAllData data s), [saveData s, Toast ImportSuccess])))"

section \<open>Specification-side definitions and concrete inputs\<close>

text \<open>
  The health score as the specification words it:
  \<open>clamp((savingsRate*30 + investmentRate*20 + (1-debtRatio)*25 + (1-expenseRatio)*25)*100, 0, 100)\<close>,
  and 0 when income is 0. The clamp is worded with the comparisons of the numbers.
\<close>

definition clamp :: "number \<Rightarrow> number \<Rightarrow> number \<Rightarrow> number" where
  "clamp x lo hi = (if x < lo then lo else if hi < x then hi else x)"

definition specHealthScore ::
    "number \<Rightarrow> number \<Rightarrow> number \<Rightarrow> number \<Rightarrow> number \<Rightarrow> number" where
  "specHealthScore inc exps savings invs debt =
     (if strictEq inc 0 then 0
      else clamp ((savings / inc * Fin 30 + invs / inc * Fin 20 + (1 - debt / inc) * Fin 25
                   + (1 - exps / inc) * Fin 25) * Fin 100) 0 (Fin 100))"

text \<open>
  The ledger invariant of the specification: each balance is the sum of the amounts of
  the transactions on that account.
\<close>

definition accountSum :: "account \<Rightarrow> Transaction list \<Rightarrow> number" where
  "accountSum a ts = foldl (+) 0 (map t_amount (filter (\<lambda>t. t_account t = a) ts))"

definition ledgerInvariant :: "state \<Rightarrow> bool" where
  "ledgerInvariant s =
     (chequingBalance s = accountSum Chequing (transactions s)
      \<and> savingsBalance s = accountSum Savings (transactions s))"

text \<open>The documents a handler asked to persist.\<close>

definition persisted :: "effect list \<Rightarrow> json list" where
  "persisted fx = concat (map (\<lambda>e. case e of Persist j \<Rightarrow> [j] | _ \<Rightarrow> []) fx)"

text \<open>The inputs \<open>addTransaction\<close> accepts, and the signed amount it books for them.\<close>

definition accepted :: "NewTransaction \<Rightarrow> bool" where
  "accepted nt =
     (n_description nt \<noteq> [] \<and> n_amount nt \<noteq> [] \<and> n_category nt \<noteq> []
      \<and> validateNumber (n_amount nt))"

definition signedAmount :: "NewTransaction \<Rightarrow> number" where
  "signedAmount nt =
     (if n_type nt = Income then parseFloat (n_amount nt) else - parseFloat (n_amount nt))"

text \<open>The initial values of the state variables (lines 155--172).\<close>

definition initialState :: state where
  "initialState =
     \<lparr>chequingBalance = 0, savingsBalance = 0, income = 0, expenses = 0, transactions = [],
      goals = [], showQuestionnaire = True,
      userData = \<lparr>u_name = [], u_chequingBalance = [], u_savingsBalance = [],
                  u_monthlyIncome = [], u_monthlyExpenses = []\<rparr>,
      budgetCategories = [], financialHealthScore = 0, investments = [], cryptocurrencies = []\<rparr>"

text \<open>The state \<open>updateAllData\<close> leaves when the document has none of the keys.\<close>

definition clearedState :: state where
  "clearedState =
     \<lparr>chequingBalance = 0, savingsBalance = 0, income = 0, expenses = 0, transactions = [],
      goals = [], showQuestionnaire = False,
      userData = \<lparr>u_name = [], u_chequingBalance = ''0'', u_savingsBalance = ''0'',
                  u_monthlyIncome = ''0'', u_monthlyExpenses = ''0''\<rparr>,
      budgetCategories = [], financialHealthScore = 0, investments = [], cryptocurrencies = []\<rparr>"

text \<open>The onboarding scenario of the specification, on a fixed day.\<close>

definition alex :: UserData where
  "alex = \<lparr>u_name = ''Alex'', u_chequingBalance = ''1000'', u_savingsBalance = ''500'',
            u_monthlyIncome = ''3000'', u_monthlyExpenses = ''2000''\<rparr>"

definition seedTransactions :: "string \<Rightarrow> Transaction list" where
  "seedTransactions day =
     [\<lparr>t_id = Fin 1, t_date = day, t_description = ''Initial Chequing Balance'',
       t_amount = Fin 1000, t_type = Income, t_category = ''Other'', t_account = Chequing\<rparr>,
      \<lparr>t_id = Fin 2, t_date = day, t_description = ''Initial Savings Balance'',
       t_amount = Fin 500, t_type = Income, t_category = ''Other'', t_account = Savings\<rparr>,
      \<lparr>t_id = Fin 3, t_date = day, t_description = ''Monthly Income'',
       t_amount = Fin 3000, t_type = Income, t_category = ''Other'', t_account = Chequing\<rparr>,
      \<lparr>t_id = Fin 4, t_date = day, t_description = ''Monthly Expenses'',
       t_amount = Fin (- 2000), t_type = Expense, t_category = ''Other'', t_account = Chequing\<rparr>]"

definition alexState :: state where
  "alexState =
     recomputeHealth (fst (handleQuestionnaireSubmit ''2024-01-15'' (initialState\<lparr>userData := alex\<rparr>)))"

definition coffee :: NewTransaction where
  "coffee = \<lparr>n_description = ''Coffee'', n_amount = ''5'', n_type = Expense,
              n_category = ''Food'', n_date = ''2024-01-15'', n_account = Chequing\<rparr>"

definition salary :: NewTransaction where
  "salary = \<lparr>n_description = ''Salary'', n_amount = ''100'', n_type = Income,
              n_category = ''Other'', n_date = ''2024-01-15'', n_account = Chequing\<rparr>"

definition bonus :: NewTransaction where
  "bonus = \<lparr>n_description = ''Bonus'', n_amount = ''30'', n_type = Income,
             n_category = ''Other'', n_date = ''2024-01-15'', n_account = Chequing\<rparr>"



text \<open>
  Two runs in which an identifier is given out twice: on the state of Alex, deleting
  transaction 1 and adding the coffee expense; on the cleared state, two additions, the
  deletion of the first, one more addition and the deletion of identifier 2.
\<close>

definition reusedState :: state where
  "reusedState = run [DeleteTransaction (Fin 1), AddTransaction coffee] alexState"

definition coffeeAt4 :: Transaction where
  "coffeeAt4 = \<lparr>t_id = Fin 4, t_date = ''2024-01-15'', t_description = ''Coffee'',
                 t_amount = Fin (- 5),
                 t_type = Expense, t_category = ''Food'', t_account = Chequing\<rparr>"

definition reuseActions :: "action list" where
  "reuseActions =
     [AddTransaction salary, AddTransaction bonus, DeleteTransaction (Fin 1),
      AddTransaction salary, DeleteTransaction (Fin 2)]"

text \<open>
  An income whose amount is 310 nines: the text passes the pattern, and \<^verbatim>\<open>parseFloat\<close>
  reads it as \<^verbatim>\<open>Infinity\<close>.
\<close>

definition nines :: string where
  "nines = replicate 310 (CHR ''9'')"

definition windfall :: NewTransaction where
  "windfall = \<lparr>n_description = ''Windfall'', n_amount = nines, n_type = Income,
                n_category = ''Other'', n_date = ''2024-01-15'', n_account = Chequing\<rparr>"

definition outflow :: NewTransaction where
  "outflow = \<lparr>n_description = ''Outflow'', n_amount = nines, n_type = Expense,
               n_category = ''Other'', n_date = ''2024-01-15'', n_account = Chequing\<rparr>"

text \<open>The state of Alex with an infinite income counter.\<close>

definition infiniteIncomeState :: state where
  "infiniteIncomeState = alexState\<lparr>income := PosInf\<rparr>"

text \<open>The states all of whose numbers are finite doubles.\<close>

definition finiteTransaction :: "Transaction \<Rightarrow> bool" where
  "finiteTransaction t = (isFiniteNumber (t_id t) \<and> isFiniteNumber (t_amount t))"

definition finiteGoal :: "Goal \<Rightarrow> bool" where
  "finiteGoal g = (isFiniteNumber (g_id g) \<and> isFiniteNumber (g_target g) \<and> isFiniteNumber (g_current g))"

definition finiteBudgetCategory :: "BudgetCategory \<Rightarrow> bool" where
  "finiteBudgetCategory b = isFiniteNumber (b_limit b)"

definition finiteInvestment :: "Investment \<Rightarrow> bool" where
  "finiteInvestment i =
     (isFiniteNumber (i_id i) \<and> isFiniteNumber (i_balance i)
      \<and> (case i_interestRate i of None \<Rightarrow> True | Some r \<Rightarrow> isFiniteNumber r))"

definition finiteCryptocurrency :: "Cryptocurrency \<Rightarrow> bool" where
  "finiteCryptocurrency c =
     (isFiniteNumber (c_id c) \<and> isFiniteNumber (c_amount c) \<and> isFiniteNumber (c_purchasePrice c)
      \<and> isFiniteNumber (c_currentPrice c))"

definition finiteState :: "state \<Rightarrow> bool" where
  "finiteState s =
     (isFiniteNumber (chequingBalance s) \<and> isFiniteNumber (savingsBalance s)
      \<and> isFiniteNumber (income s) \<and> isFiniteNumber (expenses s)
      \<and> isFiniteNumber (financialHealthScore s)
      \<and> list_all finiteTransaction (transactions s)
      \<and> list_all finiteGoal (goals s)
      \<and> list_all finiteBudgetCategory (budgetCategories s)
      \<and> list_all finiteInvestment (investments s)
      \<and> list_all finiteCryptocurrency (cryptocurrencies s))"

text \<open>The keys \<^verbatim>\<open>updateAllData\<close> reads from a document.\<close>

definition expectedKeys :: "string list" where
  "expectedKeys =
     [''chequingBalance'', ''savingsBalance'', ''income'', ''expenses'', ''transactions'',
      ''goals'', ''budgetCategories'', ''investments'', ''cryptocurrencies'', ''userData'',
      ''financialHealthScore'']"

definition lacksExpectedKeys :: "json \<Rightarrow> bool" where
  "lacksExpectedKeys d = list_all (\<lambda>k. getProp d k = None) expectedKeys"

section \<open>Laws of the numbers\<close>

lemmas number_ops = plus_number_def uminus_number_def minus_number_def times_number_def
  divide_number_def less_number_def less_eq_number_def zero_number_def one_number_def
  abs_number_def strictEq_def

lemma add_zero_right: "(x::number) + 0 = x"
  by (cases x) (simp_all add: number_ops)

lemma add_zero_left: "0 + (x::number) = x"
  by (cases x) (simp_all add: number_ops)

lemma diff_zero_right: "(x::number) - 0 = x"
  by (cases x) (simp_all add: number_ops)

lemma neg_neg: "- (- (x::number)) = x"
  by (cases x) (simp_all add: number_ops)

lemma diff_as_add: "(x::number) - y = x + (- y)"
  by (simp add: number_ops)

lemma neg_positive: "(0 < - (x::number)) = (x < 0)"
  by (cases x) (simp_all add: number_ops)

lemma fin_ops:
  "Fin a + Fin b = Fin (a + b)" "- Fin a = Fin (- a)" "Fin a - Fin b = Fin (a - b)"
  "Fin a * Fin b = Fin (a * b)" "(Fin a < Fin b) = (a < b)" "(Fin a \<le> Fin b) = (a \<le> b)"
  "(0 < Fin a) = (0 < a)" "(Fin a < 0) = (a < 0)" "(0 \<le> Fin a) = (0 \<le> a)"
  "strictEq (Fin a) (Fin b) = (a = b)" "\<bar>Fin a\<bar> = Fin \<bar>a\<bar>"
  "Fin a + 1 = Fin (a + 1)"
  by (auto simp add: number_ops)

lemma toDouble_small: "\<bar>q\<bar> \<le> 10 ^ 300 \<Longrightarrow> toDouble q = Fin q"
proof -
  have "(10::rat) ^ 300 < 2 ^ 1024 - 2 ^ 970" by simp
  moreover assume "\<bar>q\<bar> \<le> 10 ^ 300"
  ultimately show ?thesis
    unfolding toDouble_def by (simp add: abs_le_iff)
qed

lemma toDouble_nonneg: "0 \<le> q \<Longrightarrow> toDouble q = Fin q \<or> toDouble q = PosInf"
  by (simp add: toDouble_def)

lemma parseFloat_cases:
  "(\<exists>q. 0 \<le> q \<and> parseFloat v = Fin q) \<or> parseFloat v = PosInf"
proof -
  let ?q = "of_nat (digitsValue (takeWhile isDigit v))
            + of_nat (digitsValue (takeWhile isDigit (drop 1 (dropWhile isDigit v))))
              / 10 ^ length (takeWhile isDigit (drop 1 (dropWhile isDigit v)))"
  have "(0::rat) \<le> ?q" by simp
  from toDouble_nonneg [OF this] this show ?thesis
    by (auto simp add: parseFloat_def Let_def)
qed

lemma parseFloat_nonneg: "0 \<le> parseFloat v"
  using parseFloat_cases [of v] by (auto simp add: number_ops)

lemma parseFloat_not_NaN: "parseFloat v \<noteq> NaN"
  using parseFloat_cases [of v] by auto


section \<open>Evaluation lemmas\<close>

lemmas number_defs = validateNumber_def matchesNumberPattern_def isDigit_def parseFloat_def
  digitsValue_def toDouble_def

lemma validate_1000: "validateNumber ''1000''" "parseFloat ''1000'' = Fin 1000"
  by (simp_all add: number_defs number_ops)

lemma validate_500: "validateNumber ''500''" "parseFloat ''500'' = Fin 500"
  by (simp_all add: number_defs number_ops)

lemma validate_3000: "validateNumber ''3000''" "parseFloat ''3000'' = Fin 3000"
  by (simp_all add: number_defs number_ops)

lemma validate_2000: "validateNumber ''2000''" "parseFloat ''2000'' = Fin 2000"
  by (simp_all add: number_defs number_ops)

lemma validate_5: "validateNumber ''5''" "parseFloat ''5'' = Fin 5"
  by (simp_all add: number_defs number_ops)

lemma validate_100: "validateNumber ''100''" "parseFloat ''100'' = Fin 100"
  by (simp_all add: number_defs number_ops)

lemma validate_30: "validateNumber ''30''" "parseFloat ''30'' = Fin 30"
  by (simp_all add: number_defs number_ops)

lemma invalid_minus5: "\<not> validateNumber ''-5''"
  by (simp add: number_defs)

lemma invalid_abc: "\<not> validateNumber ''abc''"
  by (simp add: number_defs)

lemma validateName_Alex: "validateName ''Alex''"
  by (simp add: validateName_def isNameChar_def)

lemma validateUserData_alex: "validateUserData alex = []"
  by (simp add: validateUserData_def alex_def validateName_Alex validate_1000 validate_500
      validate_3000 validate_2000)

lemma handleQuestionnaireSubmit_alex:
  "handleQuestionnaireSubmit day (s\<lparr>userData := alex\<rparr>) =
     (s\<lparr>userData := alex, chequingBalance := Fin 1000, savingsBalance := Fin 500,
        income := Fin 3000, expenses := Fin 2000, transactions := seedTransactions day,
        showQuestionnaire := False\<rparr>,
      [SetErrors [], saveData (s\<lparr>userData := alex\<rparr>), Toast Welcome])"
  by (simp add: handleQuestionnaireSubmit_def validateUserData_alex seedTransactions_def Let_def)
     (simp add: alex_def validate_1000 validate_500 validate_3000 validate_2000 fin_ops)

lemma health_alex:
  "calculateFinancialHealth (Fin 3000) (Fin 2000) (Fin 500) (Fin 0) (Fin 0) = Fin 100"
  by (simp add: calculateFinancialHealth_def Let_def mathMin_def mathMax_def number_ops)

lemma alexState_eq:
  "alexState =
     \<lparr>chequingBalance = Fin 1000, savingsBalance = Fin 500, income = Fin 3000,
      expenses = Fin 2000, transactions = seedTransactions ''2024-01-15'', goals = [],
      showQuestionnaire = False, userData = alex, budgetCategories = [],
      financialHealthScore = Fin 100, investments = [], cryptocurrencies = []\<rparr>"
  unfolding alexState_def handleQuestionnaireSubmit_alex
  by (simp add: recomputeHealth_def initialState_def Let_def add_zero_left health_alex
      mathMax_def number_ops)

lemma coffee_fields:
  "n_description coffee = ''Coffee''" "n_amount coffee = ''5''" "n_type coffee = Expense"
  "n_category coffee = ''Food''" "n_date coffee = ''2024-01-15''" "n_account coffee = Chequing"
  by (simp_all add: coffee_def)

lemma salary_fields:
  "n_description salary = ''Salary''" "n_amount salary = ''100''" "n_type salary = Income"
  "n_category salary = ''Other''" "n_date salary = ''2024-01-15''" "n_account salary = Chequing"
  by (simp_all add: salary_def)

lemma bonus_fields:
  "n_description bonus = ''Bonus''" "n_amount bonus = ''30''" "n_type bonus = Income"
  "n_category bonus = ''Other''" "n_date bonus = ''2024-01-15''" "n_account bonus = Chequing"
  by (simp_all add: bonus_def)

lemma accepted_coffee: "accepted coffee" "signedAmount coffee = Fin (- 5)"
  by (simp_all add: accepted_def signedAmount_def coffee_def validate_5 fin_ops)

lemma accepted_salary: "accepted salary" "signedAmount salary = Fin 100"
  by (simp_all add: accepted_def signedAmount_def salary_def validate_100)

lemma accepted_bonus: "accepted bonus" "signedAmount bonus = Fin 30"
  by (simp_all add: accepted_def signedAmount_def bonus_def validate_30)

section \<open>What the handlers do to each field\<close>

lemma updateFinances_fields:
  "chequingBalance (updateFinances a acct s) = (if acct = Chequing then chequingBalance s + a else chequingBalance s)"
  "savingsBalance (updateFinances a acct s) = (if acct = Chequing then savingsBalance s else savingsBalance s + a)"
  "income (updateFinances a acct s) = (if a > 0 then income s + a else income s)"
  "expenses (updateFinances a acct s) = (if a > 0 then expenses s else expenses s - a)"
  "goals (updateFinances a acct s) =
     map (\<lambda>goal. goal\<lparr>g_current := g_current goal + (if a > 0 then a else 0)\<rparr>) (goals s)"
  "transactions (updateFinances a acct s) = transactions s"
  by (simp_all add: updateFinances_def updateGoalProgress_def Let_def)

lemma addTransaction_accepted:
  "accepted nt \<Longrightarrow>
   addTransaction nt s =
     (updateFinances (signedAmount nt) (n_account nt)
        (s\<lparr>transactions :=
             \<lparr>t_id = Fin (of_nat (length (transactions s))) + 1, t_date = n_date nt,
              t_description = n_description nt, t_amount = signedAmount nt,
              t_type = n_type nt, t_category = n_category nt, t_account = n_account nt\<rparr>
             # transactions s\<rparr>),
      [saveData s, Toast TransactionAdded])"
  by (simp add: addTransaction_def accepted_def signedAmount_def Let_def)

lemma goals_unchanged: "map (\<lambda>goal. goal\<lparr>g_current := g_current goal + 0\<rparr>) gs = gs"
  by (induction gs) (simp_all add: add_zero_right)

lemma deleteTransaction_found:
  "find (\<lambda>t. strictEq (t_id t) i) (transactions s) = Some t0 \<Longrightarrow>
   deleteTransaction i s =
     (updateFinances (- t_amount t0) (t_account t0)
        (s\<lparr>transactions := filter (\<lambda>t. \<not> strictEq (t_id t) i) (transactions s)\<rparr>),
      [saveData s, Toast TransactionDeleted])"
  by (simp add: deleteTransaction_def)

lemma deleteTransaction_missing:
  "find (\<lambda>t. strictEq (t_id t) i) (transactions s) = None \<Longrightarrow> deleteTransaction i s = (s, [])"
  by (simp add: deleteTransaction_def)


section \<open>Onboarding\<close>

text \<open>
  Claim C3, as amended. Onboarding with name "Alex", chequing "1000", savings "500",
  monthly income "3000" and monthly expenses "2000", from any state and on any day,
  creates exactly four seed transactions dated that day (initial chequing deposit,
  initial savings deposit, monthly income on chequing, monthly expenses as an outflow on
  chequing), clears the onboarding flag, and sets savingsBalance = 500, income = 3000,
  expenses = 2000 and chequingBalance = 1000: the balance is the parsed chequing field,
  the monthly income and expenses are not added to it.
\<close>

theorem onboarding_alex:
  "handleQuestionnaireSubmit day (s\<lparr>userData := alex\<rparr>) =
     (s\<lparr>userData := alex, chequingBalance := Fin 1000, savingsBalance := Fin 500,
        income := Fin 3000, expenses := Fin 2000, transactions := seedTransactions day,
        showQuestionnaire := False\<rparr>,
      [SetErrors [], saveData (s\<lparr>userData := alex\<rparr>), Toast Welcome])
   \<and> length (seedTransactions day) = 4
   \<and> map t_date (seedTransactions day) = [day, day, day, day]
   \<and> map t_account (seedTransactions day) = [Chequing, Savings, Chequing, Chequing]
   \<and> map t_amount (seedTransactions day) = [Fin 1000, Fin 500, Fin 3000, Fin (- 2000)]"
  by (simp add: handleQuestionnaireSubmit_alex) (simp add: seedTransactions_def)

text \<open>
  Claim C3 as stated fails: after the onboarding of Alex the chequing balance is not
  1000 + 3000 - 2000.
\<close>

theorem onboarding_alex_counterexample:
  "chequingBalance (fst (handleQuestionnaireSubmit ''2024-01-15'' (initialState\<lparr>userData := alex\<rparr>)))
     \<noteq> Fin 1000 + Fin 3000 - Fin 2000"
  by (simp add: handleQuestionnaireSubmit_alex fin_ops)

section \<open>The health score\<close>

lemma clamp_mathMin_mathMax: "mathMin (mathMax x 0) (Fin 100) = clamp x 0 (Fin 100)"
  by (cases x) (simp_all add: mathMin_def mathMax_def clamp_def number_ops)

lemma clamp_range: "clamp x 0 (Fin 100) = NaN \<or> (0 \<le> clamp x 0 (Fin 100) \<and> clamp x 0 (Fin 100) \<le> Fin 100)"
  by (cases x) (auto simp add: clamp_def number_ops)

text \<open>
  The score is the clamp of the specification,
  \<open>clamp((savingsRate*30 + investmentRate*20 + (1-debtRatio)*25 + (1-expenseRatio)*25)*100, 0, 100)\<close>,
  taken with the comparisons of the numbers, and 0 when income is 0. For every input it
  is either \<^verbatim>\<open>NaN\<close> or lies between 0 and 100, also when a ratio exceeds 1.
\<close>

lemma calculateFinancialHealth_spec:
  "calculateFinancialHealth inc exps savings invs debt = specHealthScore inc exps savings invs debt
   \<and> (calculateFinancialHealth inc exps savings invs debt = NaN
      \<or> (0 \<le> calculateFinancialHealth inc exps savings invs debt
         \<and> calculateFinancialHealth inc exps savings invs debt \<le> Fin 100))
   \<and> calculateFinancialHealth 0 exps savings invs debt = 0"
proof -
  have eq: "calculateFinancialHealth inc exps savings invs debt
              = specHealthScore inc exps savings invs debt"
    by (simp add: calculateFinancialHealth_def specHealthScore_def Let_def add_zero_left
        clamp_mathMin_mathMax)
  have range: "specHealthScore inc exps savings invs debt = NaN
      \<or> (0 \<le> specHealthScore inc exps savings invs debt
         \<and> specHealthScore inc exps savings invs debt \<le> Fin 100)"
    using clamp_range by (simp add: specHealthScore_def) (simp add: number_ops)
  have zero: "calculateFinancialHealth 0 exps savings invs debt = 0"
    by (simp add: calculateFinancialHealth_def) (simp add: number_ops)
  from eq range zero show ?thesis by simp
qed

text \<open>
  Expenses of three times the income give 0, savings of twice the income give 100, and
  the onboarded figures of Alex give 100.
\<close>

lemma calculateFinancialHealth_examples:
  "calculateFinancialHealth (Fin 1000) (Fin 3000) 0 0 0 = 0
   \<and> calculateFinancialHealth (Fin 1000) (Fin 500) (Fin 2000) 0 0 = Fin 100
   \<and> calculateFinancialHealth (Fin 3000) (Fin 2000) (Fin 500) 0 0 = Fin 100"
  by (simp add: calculateFinancialHealth_def Let_def mathMin_def mathMax_def number_ops)

section \<open>Adding a transaction\<close>

lemma diff_negative: "(a::number) < 0 \<Longrightarrow> e - a = e + \<bar>a\<bar>"
  by (simp add: number_ops)

lemma not_both_signs: "(a::number) < 0 \<Longrightarrow> \<not> 0 < a"
  by (cases a) (simp_all add: number_ops)

text \<open>
  Claim C5, as amended. For every state and every accepted input, the new transaction
  carries the parsed amount, positive for an income and negated for an expense, and
  stands at the head of the list; the balance of the named account changes by the signed
  amount and the other balance does not; a positive signed amount is added to the income
  counter and to the current value of every goal; the magnitude of a negative one is
  added to the expenses counter and the goals stay. On the onboarded state of Alex the
  coffee expense of "5" on chequing gives chequingBalance = 995, expenses = 2005 and a
  head transaction of amount -5.
\<close>

theorem addTransaction_effect:
  assumes "accepted nt"
  shows "(let a = signedAmount nt; s' = fst (addTransaction nt s) in
           transactions s' =
             \<lparr>t_id = Fin (of_nat (length (transactions s))) + 1, t_date = n_date nt,
              t_description = n_description nt, t_amount = a, t_type = n_type nt,
              t_category = n_category nt, t_account = n_account nt\<rparr> # transactions s
         \<and> a = (if n_type nt = Income then parseFloat (n_amount nt) else - parseFloat (n_amount nt))
         \<and> (n_account nt = Chequing \<longrightarrow>
               chequingBalance s' = chequingBalance s + a \<and> savingsBalance s' = savingsBalance s)
         \<and> (n_account nt = Savings \<longrightarrow>
               savingsBalance s' = savingsBalance s + a \<and> chequingBalance s' = chequingBalance s)
         \<and> (a > 0 \<longrightarrow>
               income s' = income s + a \<and> expenses s' = expenses s
               \<and> goals s' = map (\<lambda>goal. goal\<lparr>g_current := g_current goal + a\<rparr>) (goals s))
         \<and> (a < 0 \<longrightarrow>
               expenses s' = expenses s + \<bar>a\<bar> \<and> income s' = income s \<and> goals s' = goals s))
       \<and> chequingBalance (fst (addTransaction coffee alexState)) = Fin 995
       \<and> expenses (fst (addTransaction coffee alexState)) = Fin 2005
       \<and> map t_amount (take 1 (transactions (fst (addTransaction coffee alexState)))) = [Fin (- 5)]"
proof (intro conjI)
  show "let a = signedAmount nt; s' = fst (addTransaction nt s) in
           transactions s' =
             \<lparr>t_id = Fin (of_nat (length (transactions s))) + 1, t_date = n_date nt,
              t_description = n_description nt, t_amount = a, t_type = n_type nt,
              t_category = n_category nt, t_account = n_account nt\<rparr> # transactions s
         \<and> a = (if n_type nt = Income then parseFloat (n_amount nt) else - parseFloat (n_amount nt))
         \<and> (n_account nt = Chequing \<longrightarrow>
               chequingBalance s' = chequingBalance s + a \<and> savingsBalance s' = savingsBalance s)
         \<and> (n_account nt = Savings \<longrightarrow>
               savingsBalance s' = savingsBalance s + a \<and> chequingBalance s' = chequingBalance s)
         \<and> (a > 0 \<longrightarrow>
               income s' = income s + a \<and> expenses s' = expenses s
               \<and> goals s' = map (\<lambda>goal. goal\<lparr>g_current := g_current goal + a\<rparr>) (goals s))
         \<and> (a < 0 \<longrightarrow>
               expenses s' = expenses s + \<bar>a\<bar> \<and> income s' = income s \<and> goals s' = goals s)"
    using assms
    by (simp add: Let_def addTransaction_accepted updateFinances_fields goals_unchanged
        diff_negative not_both_signs)
       (simp add: signedAmount_def)
next
  show "chequingBalance (fst (addTransaction coffee alexState)) = Fin 995"
    by (simp add: addTransaction_accepted accepted_coffee updateFinances_fields alexState_eq
        coffee_fields fin_ops)
next
  show "expenses (fst (addTransaction coffee alexState)) = Fin 2005"
    by (simp add: addTransaction_accepted accepted_coffee updateFinances_fields alexState_eq
        fin_ops)
next
  show "map t_amount (take 1 (transactions (fst (addTransaction coffee alexState)))) = [Fin (- 5)]"
    by (simp add: addTransaction_accepted accepted_coffee updateFinances_fields)
qed

text \<open>The coffee expense is accepted, and the theorem gives its effect on the state of Alex.\<close>

theorem addTransaction_effect_witness:
  "accepted coffee
   \<and> transactions (fst (addTransaction coffee alexState)) =
       \<lparr>t_id = Fin 5, t_date = ''2024-01-15'', t_description = ''Coffee'', t_amount = Fin (- 5),
        t_type = Expense, t_category = ''Food'', t_account = Chequing\<rparr>
       # seedTransactions ''2024-01-15''
   \<and> chequingBalance (fst (addTransaction coffee alexState)) = Fin 1000 + Fin (- 5)
   \<and> savingsBalance (fst (addTransaction coffee alexState)) = Fin 500
   \<and> expenses (fst (addTransaction coffee alexState)) = Fin 2000 + Fin 5
   \<and> income (fst (addTransaction coffee alexState)) = Fin 3000
   \<and> goals (fst (addTransaction coffee alexState)) = []"
  using addTransaction_effect [of coffee alexState, OF accepted_coffee(1)]
  by (simp add: Let_def accepted_coffee alexState_eq seedTransactions_def coffee_fields validate_5
      fin_ops)

text \<open>
  Claim C5 as stated fails in its scenario: on the onboarded state of Alex the coffee
  expense does not leave a chequing balance of 1995.
\<close>

theorem addTransaction_alex_counterexample:
  "chequingBalance (fst (addTransaction coffee alexState)) \<noteq> Fin 1995"
  by (simp add: addTransaction_accepted accepted_coffee updateFinances_fields alexState_eq
      coffee_fields fin_ops)

text \<open>
  Claim C6. For every state, an input whose description, amount or category is empty,
  or whose amount fails the pattern (as "-5" and "abc" do), leaves the state as it was
  and asks for nothing to be persisted: the handler only raises a notice. The account of
  the form is one of the two accounts and cannot be empty.
\<close>

theorem addTransaction_rejection:
  assumes "n_description nt = [] \<or> n_amount nt = [] \<or> n_category nt = []
           \<or> \<not> validateNumber (n_amount nt)"
  shows "fst (addTransaction nt s) = s
         \<and> persisted (snd (addTransaction nt s)) = []
         \<and> (snd (addTransaction nt s) = [Toast FillAllFields]
            \<or> snd (addTransaction nt s) = [Toast InvalidAmount])
         \<and> \<not> validateNumber ''-5'' \<and> \<not> validateNumber ''abc''"
  using assms by (auto simp add: addTransaction_def persisted_def invalid_minus5 invalid_abc)

text \<open>The coffee form with amount "-5", and with no description, on the state of Alex.\<close>

theorem addTransaction_rejection_witness:
  "\<not> validateNumber (n_amount (coffee\<lparr>n_amount := ''-5''\<rparr>))
   \<and> addTransaction (coffee\<lparr>n_amount := ''-5''\<rparr>) alexState = (alexState, [Toast InvalidAmount])
   \<and> addTransaction (coffee\<lparr>n_description := []\<rparr>) alexState = (alexState, [Toast FillAllFields])"
  using addTransaction_rejection [of "coffee\<lparr>n_amount := ''-5''\<rparr>" alexState]
    addTransaction_rejection [of "coffee\<lparr>n_description := []\<rparr>" alexState]
  by (auto simp add: invalid_minus5 prod_eq_iff addTransaction_def coffee_def)


section \<open>Deleting a transaction\<close>

lemma recomputeHealth_fields:
  "chequingBalance (recomputeHealth s) = chequingBalance s"
  "savingsBalance (recomputeHealth s) = savingsBalance s"
  "income (recomputeHealth s) = income s"
  "expenses (recomputeHealth s) = expenses s"
  "transactions (recomputeHealth s) = transactions s"
  "goals (recomputeHealth s) = goals s"
  by (simp_all add: recomputeHealth_def Let_def)

lemma addTransaction_fields:
  assumes "accepted nt"
  shows "chequingBalance (fst (addTransaction nt s)) =
           (if n_account nt = Chequing then chequingBalance s + signedAmount nt else chequingBalance s)"
    and "savingsBalance (fst (addTransaction nt s)) =
           (if n_account nt = Chequing then savingsBalance s else savingsBalance s + signedAmount nt)"
    and "income (fst (addTransaction nt s)) =
           (if signedAmount nt > 0 then income s + signedAmount nt else income s)"
    and "expenses (fst (addTransaction nt s)) =
           (if signedAmount nt > 0 then expenses s else expenses s - signedAmount nt)"
    and "goals (fst (addTransaction nt s)) =
           map (\<lambda>goal. goal\<lparr>g_current := g_current goal
                  + (if signedAmount nt > 0 then signedAmount nt else 0)\<rparr>) (goals s)"
    and "transactions (fst (addTransaction nt s)) =
           \<lparr>t_id = Fin (of_nat (length (transactions s))) + 1, t_date = n_date nt,
            t_description = n_description nt, t_amount = signedAmount nt,
            t_type = n_type nt, t_category = n_category nt, t_account = n_account nt\<rparr>
           # transactions s"
  using assms by (simp_all add: addTransaction_accepted updateFinances_fields)

lemma filter_other_ids:
  "find (\<lambda>t. strictEq (t_id t) i) ts = None \<Longrightarrow> filter (\<lambda>t. \<not> strictEq (t_id t) i) ts = ts"
  by (induction ts) (simp_all split: if_splits)

lemma deleteTransaction_fields:
  "chequingBalance (fst (deleteTransaction i s)) =
     (case find (\<lambda>t. strictEq (t_id t) i) (transactions s) of None \<Rightarrow> chequingBalance s
      | Some t0 \<Rightarrow> if t_account t0 = Chequing then chequingBalance s + (- t_amount t0)
                   else chequingBalance s)"
  "savingsBalance (fst (deleteTransaction i s)) =
     (case find (\<lambda>t. strictEq (t_id t) i) (transactions s) of None \<Rightarrow> savingsBalance s
      | Some t0 \<Rightarrow> if t_account t0 = Chequing then savingsBalance s
                   else savingsBalance s + (- t_amount t0))"
  "income (fst (deleteTransaction i s)) =
     (case find (\<lambda>t. strictEq (t_id t) i) (transactions s) of None \<Rightarrow> income s
      | Some t0 \<Rightarrow> if t_amount t0 < 0 then income s + (- t_amount t0) else income s)"
  "expenses (fst (deleteTransaction i s)) =
     (case find (\<lambda>t. strictEq (t_id t) i) (transactions s) of None \<Rightarrow> expenses s
      | Some t0 \<Rightarrow> if t_amount t0 < 0 then expenses s else expenses s + t_amount t0)"
  "goals (fst (deleteTransaction i s)) =
     (case find (\<lambda>t. strictEq (t_id t) i) (transactions s) of None \<Rightarrow> goals s
      | Some t0 \<Rightarrow> map (\<lambda>goal. goal\<lparr>g_current := g_current goal
                  + (if t_amount t0 < 0 then - t_amount t0 else 0)\<rparr>) (goals s))"
  "transactions (fst (deleteTransaction i s)) = filter (\<lambda>t. \<not> strictEq (t_id t) i) (transactions s)"
  by (simp_all add: deleteTransaction_def updateFinances_fields filter_other_ids Let_def
      neg_positive diff_as_add neg_neg split: option.split)

lemma alexState_fields:
  "chequingBalance alexState = Fin 1000" "savingsBalance alexState = Fin 500"
  "income alexState = Fin 3000" "expenses alexState = Fin 2000" "goals alexState = []"
  "transactions alexState = seedTransactions ''2024-01-15''"
  by (simp_all add: alexState_eq)

lemma clearedState_fields:
  "chequingBalance clearedState = 0" "savingsBalance clearedState = 0" "income clearedState = 0"
  "expenses clearedState = 0" "goals clearedState = []" "transactions clearedState = []"
  by (simp_all add: clearedState_def)


lemma coffeeAt4_fields:
  "t_id coffeeAt4 = Fin 4" "t_amount coffeeAt4 = Fin (- 5)" "t_account coffeeAt4 = Chequing"
  "t_description coffeeAt4 = ''Coffee''"
  by (simp_all add: coffeeAt4_def)

lemma reusedState_fields:
  "chequingBalance reusedState = Fin (- 5)" "savingsBalance reusedState = Fin 500"
  "income reusedState = Fin 3000" "expenses reusedState = Fin 3005" "goals reusedState = []"
  by (simp_all add: reusedState_def run_def recomputeHealth_fields addTransaction_fields
      accepted_coffee deleteTransaction_fields alexState_fields coffee_fields
      seedTransactions_def fin_ops)

lemma reusedState_transactions:
  "transactions reusedState =
     [coffeeAt4,
      \<lparr>t_id = Fin 2, t_date = ''2024-01-15'', t_description = ''Initial Savings Balance'',
       t_amount = Fin 500, t_type = Income, t_category = ''Other'', t_account = Savings\<rparr>,
      \<lparr>t_id = Fin 3, t_date = ''2024-01-15'', t_description = ''Monthly Income'',
       t_amount = Fin 3000, t_type = Income, t_category = ''Other'', t_account = Chequing\<rparr>,
      \<lparr>t_id = Fin 4, t_date = ''2024-01-15'', t_description = ''Monthly Expenses'',
       t_amount = Fin (- 2000), t_type = Expense, t_category = ''Other'', t_account = Chequing\<rparr>]"
  by (simp add: reusedState_def run_def recomputeHealth_fields addTransaction_fields
      accepted_coffee deleteTransaction_fields alexState_fields coffee_fields coffeeAt4_def)
     (simp add: seedTransactions_def fin_ops)

lemma find_reused: "find (\<lambda>t. strictEq (t_id t) (Fin 4)) (transactions reusedState) = Some coffeeAt4"
  by (simp add: reusedState_transactions) (simp add: coffeeAt4_def fin_ops)

lemma two_reused: "2 \<le> length (filter (\<lambda>t. strictEq (t_id t) (Fin 4)) (transactions reusedState))"
  by (simp add: reusedState_transactions coffeeAt4_fields fin_ops)

text \<open>
  Claim C10. In a state where two or more transactions carry the identifier \<open>i\<close>,
  deleting \<open>i\<close> removes every one of them and keeps the others in order, and adjusts
  the balances, the counters and the goals once, with the negated amount and the account
  of the first of them in list order: that account's balance loses the amount; a
  negative amount is added in magnitude to the income counter and to every goal, any
  other amount is added to the expenses counter.
\<close>

theorem deleteTransaction_duplicate_ids:
  assumes "find (\<lambda>t. strictEq (t_id t) i) (transactions s) = Some t0"
      and "2 \<le> length (filter (\<lambda>t. strictEq (t_id t) i) (transactions s))"
  shows "let s' = fst (deleteTransaction i s) in
           transactions s' = filter (\<lambda>t. \<not> strictEq (t_id t) i) (transactions s)
         \<and> filter (\<lambda>t. strictEq (t_id t) i) (transactions s') = []
         \<and> length (transactions s') + length (filter (\<lambda>t. strictEq (t_id t) i) (transactions s))
             = length (transactions s)
         \<and> chequingBalance s' = chequingBalance s - (if t_account t0 = Chequing then t_amount t0 else 0)
         \<and> savingsBalance s' = savingsBalance s - (if t_account t0 = Savings then t_amount t0 else 0)
         \<and> income s' = income s + (if t_amount t0 < 0 then - t_amount t0 else 0)
         \<and> expenses s' = expenses s + (if t_amount t0 < 0 then 0 else t_amount t0)
         \<and> goals s' =
             map (\<lambda>goal. goal\<lparr>g_current := g_current goal + (if t_amount t0 < 0 then - t_amount t0 else 0)\<rparr>)
               (goals s)"
proof -
  have len: "length (filter (\<lambda>t. \<not> strictEq (t_id t) i) ts) + length (filter (\<lambda>t. strictEq (t_id t) i) ts)
               = length ts"
    for ts :: "Transaction list"
    by (induction ts) simp_all
  have none: "filter (\<lambda>t. strictEq (t_id t) i) (filter (\<lambda>t. \<not> strictEq (t_id t) i) ts) = []"
    for ts :: "Transaction list"
    by (induction ts) simp_all
  have acct: "t_account t0 \<noteq> Chequing \<longleftrightarrow> t_account t0 = Savings"
    by (cases "t_account t0") simp_all
  show ?thesis
    using assms(1) len [of "transactions s"] none [of "transactions s"] acct
    by (simp add: Let_def deleteTransaction_fields diff_as_add [symmetric] diff_zero_right
        add_zero_right)
qed

text \<open>
  In \<open>reusedState\<close> the coffee expense and the seed transaction "Monthly Expenses" both
  carry identifier 4. Deleting 4 removes both and gives back the 5 of the coffee only.
\<close>

theorem deleteTransaction_duplicate_ids_witness:
  "find (\<lambda>t. strictEq (t_id t) (Fin 4)) (transactions reusedState) = Some coffeeAt4
   \<and> 2 \<le> length (filter (\<lambda>t. strictEq (t_id t) (Fin 4)) (transactions reusedState))
   \<and> map t_description (transactions (fst (deleteTransaction (Fin 4) reusedState)))
       = [''Initial Savings Balance'', ''Monthly Income'']
   \<and> chequingBalance reusedState = Fin (- 5)
   \<and> chequingBalance (fst (deleteTransaction (Fin 4) reusedState)) = Fin 0
   \<and> savingsBalance (fst (deleteTransaction (Fin 4) reusedState)) = Fin 500
   \<and> income (fst (deleteTransaction (Fin 4) reusedState)) = Fin 3005
   \<and> expenses (fst (deleteTransaction (Fin 4) reusedState)) = Fin 3005"
  using deleteTransaction_duplicate_ids [OF find_reused two_reused]
  by (simp add: Let_def find_reused two_reused reusedState_fields coffeeAt4_fields fin_ops
      number_ops)
     (simp add: reusedState_transactions coffeeAt4_fields number_ops)

section \<open>Identifiers and the ledger invariant\<close>

text \<open>
  Claim C7 fails on the code. The identifiers of the onboarded state are distinct; after
  transaction 1 is deleted and the coffee expense added, the list has three entries, the
  new identifier is 3 + 1, and 4 stands twice in the list.
\<close>

theorem id_reuse:
  "distinct (map t_id (transactions alexState))
   \<and> map t_id (transactions (run [DeleteTransaction (Fin 1), AddTransaction coffee] alexState))
       = [Fin 4, Fin 2, Fin 3, Fin 4]
   \<and> \<not> distinct (map t_id (transactions (run [DeleteTransaction (Fin 1), AddTransaction coffee] alexState)))"
proof -
  have "map t_id (transactions (run [DeleteTransaction (Fin 1), AddTransaction coffee] alexState))
          = [Fin 4, Fin 2, Fin 3, Fin 4]"
    using reusedState_transactions by (simp add: reusedState_def coffeeAt4_fields)
  then show ?thesis
    by (simp add: alexState_fields seedTransactions_def)
qed

text \<open>
  Claim C1 fails on the code. The cleared state has no transaction and both balances
  at 0, so the invariant holds. After \<open>reuseActions\<close> the list is empty again, as the
  last deletion removes both transactions numbered 2, but only the amount of the first
  of them was taken back: the chequing balance is 30, and the invariant is broken.
\<close>

theorem ledger_invariant_broken:
  "ledgerInvariant clearedState
   \<and> transactions (run reuseActions clearedState) = []
   \<and> chequingBalance (run reuseActions clearedState) = Fin 30
   \<and> \<not> ledgerInvariant (run reuseActions clearedState)"
proof -
  have t: "transactions (run reuseActions clearedState) = []"
    by (simp add: reuseActions_def run_def recomputeHealth_fields addTransaction_fields
        deleteTransaction_fields accepted_salary accepted_bonus clearedState_fields fin_ops)
  have c: "chequingBalance (run reuseActions clearedState) = Fin 30"
    by (simp add: reuseActions_def run_def recomputeHealth_fields addTransaction_fields
        deleteTransaction_fields accepted_salary accepted_bonus clearedState_fields
        salary_fields bonus_fields fin_ops number_ops)
  show ?thesis
    by (simp add: t c ledgerInvariant_def accountSum_def clearedState_fields)
       (simp add: number_ops)
qed


section \<open>Amounts that overflow\<close>

lemma digits_of_nines:
  "foldl (\<lambda>acc c. 10 * acc + (of_char c - 48)) (k::nat) (replicate n (CHR ''9'')) + 1
     = (k + 1) * 10 ^ n"
  by (induction n arbitrary: k) (simp_all add: algebra_simps)

lemma isDigit_9: "isDigit (CHR ''9'')"
  by (simp add: isDigit_def)

lemma parseFloat_nines: "parseFloat nines = PosInf"
proof -
  have d: "digitsValue (replicate 310 (CHR ''9'')) + 1 = 10 ^ 310"
    using digits_of_nines [of 0 310] by (simp add: digitsValue_def)
  have "(of_nat (digitsValue (replicate 310 (CHR ''9'')) + 1) :: rat) = of_nat (10 ^ 310)"
    by (simp only: d)
  then have v: "(of_nat (digitsValue (replicate 310 (CHR ''9''))) :: rat) = 10 ^ 310 - 1"
    by simp
  show ?thesis
    by (simp add: parseFloat_def nines_def isDigit_9 v toDouble_def)
qed

lemma validateNumber_nines: "validateNumber nines"
proof -
  have "matchesNumberPattern nines"
    by (simp add: matchesNumberPattern_def nines_def isDigit_9)
  then show ?thesis
    using parseFloat_nonneg [of nines] by (simp add: validateNumber_def)
qed

lemma nines_not_empty: "nines \<noteq> []"
  by (simp add: nines_def)

lemma accepted_windfall: "accepted windfall" "signedAmount windfall = PosInf"
  by (simp_all add: accepted_def signedAmount_def windfall_def validateNumber_nines
      parseFloat_nines nines_not_empty)

lemma windfall_fields:
  "n_type windfall = Income" "n_account windfall = Chequing" "n_amount windfall = nines"
  by (simp_all add: windfall_def)

lemma accepted_outflow: "accepted outflow" "signedAmount outflow = NegInf"
  by (simp_all add: accepted_def signedAmount_def outflow_def validateNumber_nines
      parseFloat_nines nines_not_empty number_ops)

lemma outflow_fields:
  "n_type outflow = Expense" "n_account outflow = Chequing" "n_amount outflow = nines"
  by (simp_all add: outflow_def)

lemma overflow_run:
  "chequingBalance (run [AddTransaction windfall, AddTransaction outflow] alexState) = NaN"
  "savingsBalance (run [AddTransaction windfall, AddTransaction outflow] alexState) = Fin 500"
  "income (run [AddTransaction windfall, AddTransaction outflow] alexState) = PosInf"
  "expenses (run [AddTransaction windfall, AddTransaction outflow] alexState) = PosInf"
  by (simp_all add: run_def recomputeHealth_fields addTransaction_fields accepted_windfall
      accepted_outflow windfall_fields outflow_fields alexState_fields number_ops)

section \<open>The health score on infinite counters\<close>

text \<open>
  Claim C4 fails on the code. The claim, and the comment of line 150 ("Ensure score is
  between 0 and 100"), put the score between 0 and 100 for every input. With income and
  expenses both infinite the expense ratio is \<^verbatim>\<open>Infinity / Infinity\<close>, which is
  \<^verbatim>\<open>NaN\<close>, and \<^verbatim>\<open>Math.min(Math.max(NaN, 0), 100)\<close> is \<^verbatim>\<open>NaN\<close>; a \<^verbatim>\<open>NaN\<close> input
  gives \<^verbatim>\<open>NaN\<close> as well. On the state of Alex the two counters are infinite after an
  income and an expense of 310 nines each, and the score the effect stores is \<^verbatim>\<open>NaN\<close>,
  which is neither at least 0 nor at most 100.
\<close>

theorem health_score_nan:
  "calculateFinancialHealth PosInf PosInf (Fin 500) 0 0 = NaN
   \<and> calculateFinancialHealth NaN (Fin 2000) (Fin 500) 0 0 = NaN
   \<and> accepted windfall \<and> accepted outflow
   \<and> income (run [AddTransaction windfall, AddTransaction outflow] alexState) = PosInf
   \<and> expenses (run [AddTransaction windfall, AddTransaction outflow] alexState) = PosInf
   \<and> financialHealthScore (run [AddTransaction windfall, AddTransaction outflow] alexState) = NaN
   \<and> \<not> (0 \<le> (NaN::number)) \<and> \<not> ((NaN::number) \<le> Fin 100)"
proof -
  have f: "calculateFinancialHealth PosInf PosInf (Fin 500) 0 0 = NaN"
      "calculateFinancialHealth NaN (Fin 2000) (Fin 500) 0 0 = NaN"
    by (simp_all add: calculateFinancialHealth_def Let_def mathMin_def mathMax_def number_ops)
  have h: "financialHealthScore (recomputeHealth s) =
             calculateFinancialHealth (income s) (expenses s) (savingsBalance s)
               (foldl (\<lambda>sum inv. sum + i_balance inv) 0 (investments s)
                + foldl (\<lambda>sum crypto. sum + c_amount crypto * c_currentPrice crypto) 0
                    (cryptocurrencies s))
               (mathMax 0 (- chequingBalance s))" for s
    by (simp add: recomputeHealth_def Let_def)
  have r: "run [AddTransaction windfall, AddTransaction outflow] alexState =
             recomputeHealth (fst (addTransaction outflow
               (recomputeHealth (fst (addTransaction windfall alexState)))))"
    by (simp add: run_def)
  have i: "investments (fst (addTransaction outflow
               (recomputeHealth (fst (addTransaction windfall alexState))))) = []"
      "cryptocurrencies (fst (addTransaction outflow
               (recomputeHealth (fst (addTransaction windfall alexState))))) = []"
    by (simp_all add: addTransaction_accepted accepted_windfall accepted_outflow
        updateFinances_def updateGoalProgress_def recomputeHealth_def Let_def alexState_eq)
  have s: "financialHealthScore (run [AddTransaction windfall, AddTransaction outflow] alexState) = NaN"
    unfolding r h i
    using overflow_run [unfolded r]
    by (simp add: recomputeHealth_fields)
       (simp add: calculateFinancialHealth_def Let_def mathMin_def mathMax_def number_ops)
  show ?thesis
    using f s overflow_run accepted_windfall accepted_outflow by (simp add: number_ops)
qed

section \<open>Adding, then deleting\<close>











section \<open>Export and import\<close>

lemma those_map_Some: "(\<And>x. x \<in> set xs \<Longrightarrow> f x = Some x) \<Longrightarrow> those (map f xs) = Some xs"
  by (induction xs) simp_all

lemma asList_roundtrip:
  "list_all P xs \<Longrightarrow> (\<And>x. P x \<Longrightarrow> dec (enc x) = Some x) \<Longrightarrow>
   asList dec (JArr (map enc xs)) = Some xs"
  by (simp add: asList_def those_map_Some list_all_iff)

lemma asNum_roundtrip: "isFiniteNumber x \<Longrightarrow> asNum (numJson x) = Some x"
  by (cases x) (simp_all add: isFiniteNumber_def asNum_def numJson_def toDouble_def abs_less_iff)

lemma numJson_finite: "isFiniteNumber x \<Longrightarrow> numJson x \<noteq> JNull"
  by (cases x) (simp_all add: isFiniteNumber_def numJson_def)

lemma required_values:
  "required dec None = None" "required dec (Some v) = dec v"
  by (simp_all add: required_def)

lemma optional_values:
  "optional dec None = Some None" "optional dec (Some v) = map_option Some (dec v)"
  by (simp_all add: optional_def)

lemma nullish_values:
  "nullish dec None = Some None"
  "nullish dec (Some JNull) = Some None"
  "nullish dec (Some (JBool b)) = map_option Some (dec (JBool b))"
  "nullish dec (Some (JNum r)) = map_option Some (dec (JNum r))"
  "nullish dec (Some (JStr x)) = map_option Some (dec (JStr x))"
  "nullish dec (Some (JArr vs)) = map_option Some (dec (JArr vs))"
  "nullish dec (Some (JObj kvs)) = map_option Some (dec (JObj kvs))"
  by (simp_all add: nullish_def)

lemma nullish_number:
  "isFiniteNumber x \<Longrightarrow> nullish asNum (Some (numJson x)) = Some (Some x)"
  by (cases x) (simp_all add: nullish_values asNum_def numJson_def isFiniteNumber_def toDouble_def
      abs_less_iff)

lemma nullish_userDataJson:
  "nullish dec (Some (userDataJson u)) = map_option Some (dec (userDataJson u))"
  by (simp add: nullish_def userDataJson_def)

lemma asType_roundtrip: "asType (JStr (typeStr ty)) = Some ty"
  by (cases ty) (simp_all add: asType_def typeStr_def)

lemma asAccount_roundtrip: "asAccount (JStr (accountStr a)) = Some a"
  by (cases a) (simp_all add: asAccount_def accountStr_def)

lemma asInvestmentType_roundtrip: "asInvestmentType (JStr (investmentTypeStr ty)) = Some ty"
  by (cases ty) (simp_all add: asInvestmentType_def investmentTypeStr_def)

lemma asTransaction_roundtrip: "finiteTransaction t \<Longrightarrow> asTransaction (transactionJson t) = Some t"
  by (simp add: asTransaction_def transactionJson_def required_values asNum_roundtrip asStr_def
      asType_roundtrip asAccount_roundtrip finiteTransaction_def)

lemma asGoal_roundtrip: "finiteGoal g \<Longrightarrow> asGoal (goalJson g) = Some g"
  by (simp add: asGoal_def goalJson_def required_values asNum_roundtrip asStr_def finiteGoal_def)

lemma asBudgetCategory_roundtrip:
  "finiteBudgetCategory b \<Longrightarrow> asBudgetCategory (budgetCategoryJson b) = Some b"
  by (simp add: asBudgetCategory_def budgetCategoryJson_def required_values asNum_roundtrip
      asStr_def finiteBudgetCategory_def)

lemma asInvestment_roundtrip: "finiteInvestment i \<Longrightarrow> asInvestment (investmentJson i) = Some i"
  by (cases "i_interestRate i"; cases "i_maturityDate i")
     (simp_all add: asInvestment_def investmentJson_def required_values optional_values
        asNum_roundtrip asStr_def asInvestmentType_roundtrip finiteInvestment_def)

lemma asCryptocurrency_roundtrip:
  "finiteCryptocurrency c \<Longrightarrow> asCryptocurrency (cryptocurrencyJson c) = Some c"
  by (simp add: asCryptocurrency_def cryptocurrencyJson_def required_values asNum_roundtrip
      asStr_def finiteCryptocurrency_def)

lemma asUserDataPartial_roundtrip:
  "asUserDataPartial (userDataJson u) =
     Some \<lparr>p_name = Some (u_name u), p_chequingBalance = Some (u_chequingBalance u),
           p_savingsBalance = Some (u_savingsBalance u), p_monthlyIncome = Some (u_monthlyIncome u),
           p_monthlyExpenses = Some (u_monthlyExpenses u)\<rparr>"
  by (simp add: asUserDataPartial_def userDataJson_def nullish_values asStr_def)

lemma importData_document:
  "v \<noteq> JNull \<Longrightarrow>
   importData (Some v) s =
     (case asFinancialData v of
        None \<Rightarrow> (Untyped v, [saveData s, Toast ImportSuccess])
      | Some data \<Rightarrow> (Typed (updateAllData data s), [saveData s, Toast ImportSuccess]))"
  by (cases v) (simp_all add: importData_def split: option.split)

lemma dataToSave_not_null: "dataToSave s \<noteq> JNull"
  by (simp add: dataToSave_def)

lemma transactions_roundtrip:
  "list_all finiteTransaction ts \<Longrightarrow> asList asTransaction (JArr (map transactionJson ts)) = Some ts"
  by (intro asList_roundtrip [where P = finiteTransaction]) (simp_all add: asTransaction_roundtrip)

lemma goals_roundtrip:
  "list_all finiteGoal gs \<Longrightarrow> asList asGoal (JArr (map goalJson gs)) = Some gs"
  by (intro asList_roundtrip [where P = finiteGoal]) (simp_all add: asGoal_roundtrip)

lemma budgetCategories_roundtrip:
  "list_all finiteBudgetCategory bs \<Longrightarrow>
   asList asBudgetCategory (JArr (map budgetCategoryJson bs)) = Some bs"
  by (intro asList_roundtrip [where P = finiteBudgetCategory])
     (simp_all add: asBudgetCategory_roundtrip)

lemma investments_roundtrip:
  "list_all finiteInvestment ivs \<Longrightarrow> asList asInvestment (JArr (map investmentJson ivs)) = Some ivs"
  by (intro asList_roundtrip [where P = finiteInvestment]) (simp_all add: asInvestment_roundtrip)

lemma cryptocurrencies_roundtrip:
  "list_all finiteCryptocurrency cs \<Longrightarrow>
   asList asCryptocurrency (JArr (map cryptocurrencyJson cs)) = Some cs"
  by (intro asList_roundtrip [where P = finiteCryptocurrency])
     (simp_all add: asCryptocurrency_roundtrip)

lemma asFinancialData_dataToSave:
  assumes "finiteState s"
  shows "asFinancialData (dataToSave s) =
     Some \<lparr>d_chequingBalance = Some (chequingBalance s),
           d_savingsBalance = Some (savingsBalance s),
           d_income = Some (income s),
           d_expenses = Some (expenses s),
           d_transactions = Some (transactions s),
           d_goals = Some (goals s),
           d_budgetCategories = Some (budgetCategories s),
           d_investments = Some (investments s),
           d_cryptocurrencies = Some (cryptocurrencies s),
           d_userData =
             Some \<lparr>p_name = Some (u_name (userData s)),
                   p_chequingBalance = Some (u_chequingBalance (userData s)),
                   p_savingsBalance = Some (u_savingsBalance (userData s)),
                   p_monthlyIncome = Some (u_monthlyIncome (userData s)),
                   p_monthlyExpenses = Some (u_monthlyExpenses (userData s))\<rparr>,
           d_financialHealthScore = Some (financialHealthScore s)\<rparr>"
  using assms
  by (simp add: asFinancialData_def dataToSave_def finiteState_def nullish_number nullish_values
      transactions_roundtrip goals_roundtrip budgetCategories_roundtrip investments_roundtrip
      cryptocurrencies_roundtrip asUserDataPartial_roundtrip nullish_userDataJson)

lemma updateAllData_all_keys:
  "updateAllData
     \<lparr>d_chequingBalance = Some (chequingBalance s),
      d_savingsBalance = Some (savingsBalance s),
      d_income = Some (income s),
      d_expenses = Some (expenses s),
      d_transactions = Some (transactions s),
      d_goals = Some (goals s),
      d_budgetCategories = Some (budgetCategories s),
      d_investments = Some (investments s),
      d_cryptocurrencies = Some (cryptocurrencies s),
      d_userData =
        Some \<lparr>p_name = Some (u_name (userData s)),
              p_chequingBalance = Some (u_chequingBalance (userData s)),
              p_savingsBalance = Some (u_savingsBalance (userData s)),
              p_monthlyIncome = Some (u_monthlyIncome (userData s)),
              p_monthlyExpenses = Some (u_monthlyExpenses (userData s))\<rparr>,
      d_financialHealthScore = Some (financialHealthScore s)\<rparr> s'
   = s\<lparr>showQuestionnaire := False\<rparr>"
  by (simp add: updateAllData_def coalesce_def chain_def)

text \<open>
  After an import React runs the effect of lines 182--187 again. On a state whose score
  is already the one the effect computes, as every state is once its render has settled,
  the effect changes nothing after the import either.
\<close>

lemma recomputeHealth_after_import:
  "recomputeHealth s = s \<Longrightarrow>
   recomputeHealth (s\<lparr>showQuestionnaire := False\<rparr>) = s\<lparr>showQuestionnaire := False\<rparr>"
proof -
  assume "recomputeHealth s = s"
  then have "financialHealthScore (recomputeHealth s) = financialHealthScore s"
    by simp
  then show ?thesis
    by (simp add: recomputeHealth_def Let_def)
qed

text \<open>
  Claim C8, as amended. For every state \<open>s\<close> all of whose numbers are finite, importing
  the document that \<open>exportData\<close> makes of \<open>s\<close>, into any current state, gives \<open>s\<close>
  again in all eleven exported fields (chequingBalance, savingsBalance, income,
  expenses, transactions, goals, budgetCategories, investments, cryptocurrencies,
  userData, financialHealthScore); the only other field, the onboarding flag, is
  cleared.
\<close>

theorem export_import_roundtrip:
  assumes "finiteState s"
  shows "importData (Some (exportData s)) s' =
           (Typed (s\<lparr>showQuestionnaire := False\<rparr>), [saveData s', Toast ImportSuccess])"
  by (simp add: importData_document dataToSave_not_null exportData_def
      asFinancialData_dataToSave [OF assms] updateAllData_all_keys)

lemma finite_small: "isFiniteNumber (Fin 1)" "isFiniteNumber (Fin 2)" "isFiniteNumber (Fin 3)"
  "isFiniteNumber (Fin 4)" "isFiniteNumber (Fin 100)" "isFiniteNumber (Fin 500)"
  "isFiniteNumber (Fin 1000)" "isFiniteNumber (Fin 2000)" "isFiniteNumber (Fin 3000)"
  "isFiniteNumber (Fin (- 2000))" "isFiniteNumber (Fin 0)"
  by (simp_all add: isFiniteNumber_def)

lemma finiteState_alexState: "finiteState alexState"
  by (simp add: finiteState_def alexState_eq seedTransactions_def finiteTransaction_def
      finite_small)

text \<open>The state of Alex has finite numbers only, and comes back from its own export.\<close>

theorem export_import_roundtrip_witness:
  "finiteState alexState
   \<and> importData (Some (exportData alexState)) clearedState =
       (Typed alexState, [saveData clearedState, Toast ImportSuccess])"
  using export_import_roundtrip [OF finiteState_alexState, of clearedState]
  by (simp add: finiteState_alexState) (simp add: alexState_eq)


lemma infiniteIncomeState_eq:
  "infiniteIncomeState =
     \<lparr>chequingBalance = Fin 1000, savingsBalance = Fin 500, income = PosInf,
      expenses = Fin 2000, transactions = seedTransactions ''2024-01-15'', goals = [],
      showQuestionnaire = False, userData = alex, budgetCategories = [],
      financialHealthScore = Fin 100, investments = [], cryptocurrencies = []\<rparr>"
  by (simp add: infiniteIncomeState_def alexState_eq)

lemma finite_seeds: "list_all finiteTransaction (seedTransactions day)"
  by (simp add: seedTransactions_def finiteTransaction_def finite_small)

text \<open>
  Claim C8 as stated fails: an infinite income counter is exported as \<^verbatim>\<open>null\<close> and
  comes back as the default 0.
\<close>

theorem export_import_roundtrip_counterexample:
  "income infiniteIncomeState = PosInf
   \<and> importData (Some (exportData infiniteIncomeState)) infiniteIncomeState =
       (Typed (infiniteIncomeState\<lparr>income := Fin 0\<rparr>),
        [saveData infiniteIncomeState, Toast ImportSuccess])"
proof -
  have "asFinancialData (dataToSave infiniteIncomeState) =
     Some \<lparr>d_chequingBalance = Some (Fin 1000), d_savingsBalance = Some (Fin 500),
           d_income = None, d_expenses = Some (Fin 2000),
           d_transactions = Some (seedTransactions ''2024-01-15''), d_goals = Some [],
           d_budgetCategories = Some [], d_investments = Some [], d_cryptocurrencies = Some [],
           d_userData =
             Some \<lparr>p_name = Some ''Alex'', p_chequingBalance = Some ''1000'',
                   p_savingsBalance = Some ''500'', p_monthlyIncome = Some ''3000'',
                   p_monthlyExpenses = Some ''2000''\<rparr>,
           d_financialHealthScore = Some (Fin 100)\<rparr>"
    by (simp add: asFinancialData_def dataToSave_def infiniteIncomeState_eq nullish_number
        finite_small nullish_values transactions_roundtrip finite_seeds
        asUserDataPartial_roundtrip nullish_userDataJson)
       (simp add: numJson_def nullish_values asList_def alex_def)
  then show ?thesis
    by (simp add: importData_document dataToSave_not_null exportData_def updateAllData_def
        coalesce_def chain_def)
       (simp add: infiniteIncomeState_eq alex_def number_ops)
qed

lemma asFinancialData_no_keys:
  "lacksExpectedKeys d \<Longrightarrow>
   asFinancialData d =
     Some \<lparr>d_chequingBalance = None, d_savingsBalance = None, d_income = None,
           d_expenses = None, d_transactions = None, d_goals = None,
           d_budgetCategories = None, d_investments = None, d_cryptocurrencies = None,
           d_userData = None, d_financialHealthScore = None\<rparr>"
  by (simp add: lacksExpectedKeys_def expectedKeys_def asFinancialData_def nullish_values)

lemma updateAllData_no_keys:
  "updateAllData \<lparr>d_chequingBalance = None, d_savingsBalance = None, d_income = None,
           d_expenses = None, d_transactions = None, d_goals = None,
           d_budgetCategories = None, d_investments = None, d_cryptocurrencies = None,
           d_userData = None, d_financialHealthScore = None\<rparr> s = clearedState"
  by (simp add: updateAllData_def coalesce_def chain_def clearedState_def)

lemma not_objects_lack_keys:
  "lacksExpectedKeys (JNum r)" "lacksExpectedKeys (JStr x)" "lacksExpectedKeys (JBool b)"
  "lacksExpectedKeys (JArr vs)" "lacksExpectedKeys (JObj [])"
  by (simp_all add: lacksExpectedKeys_def expectedKeys_def)

text \<open>
  Claim C9, as amended. For every current state, an import whose text is not JSON, or
  is the JSON value \<^verbatim>\<open>null\<close>, raises the import-failed notice and leaves every field of
  the state unchanged. Every other JSON document, whatever its shape, is accepted: the
  success notice is raised after \<^verbatim>\<open>saveData\<close>. When the document has none of the eleven
  keys, as every number, string, boolean and array and every object without them, every
  field of the state is set to its default.
\<close>

theorem importData_malformed:
  "importData None s = (Typed s, [Toast ImportError])
   \<and> importData (Some JNull) s = (Typed s, [Toast ImportError])
   \<and> (d \<noteq> JNull \<longrightarrow> snd (importData (Some d) s) = [saveData s, Toast ImportSuccess])
   \<and> (d \<noteq> JNull \<and> lacksExpectedKeys d \<longrightarrow> fst (importData (Some d) s) = Typed clearedState)
   \<and> lacksExpectedKeys (JNum r) \<and> lacksExpectedKeys (JStr x) \<and> lacksExpectedKeys (JBool b)
   \<and> lacksExpectedKeys (JArr vs)"
  by (auto simp add: importData_document asFinancialData_no_keys updateAllData_no_keys
      not_objects_lack_keys split: option.split)
     (simp_all add: importData_def)

text \<open>
  On the state of Alex: an object with a foreign key only and an empty array are
  imported as the defaults, and an object whose \<^verbatim>\<open>transactions\<close> is the number 5 is
  accepted with the success notice, the state variable holding the 5.
\<close>

theorem importData_malformed_witness:
  "JObj [(''foo'', JNum 1)] \<noteq> JNull \<and> lacksExpectedKeys (JObj [(''foo'', JNum 1)])
   \<and> importData (Some (JObj [(''foo'', JNum 1)])) alexState
       = (Typed clearedState, [saveData alexState, Toast ImportSuccess])
   \<and> importData (Some (JArr [])) alexState
       = (Typed clearedState, [saveData alexState, Toast ImportSuccess])
   \<and> importData (Some (JObj [(''transactions'', JNum 5)])) alexState
       = (Untyped (JObj [(''transactions'', JNum 5)]), [saveData alexState, Toast ImportSuccess])"
proof -
  have k: "lacksExpectedKeys (JObj [(''foo'', JNum 1)])"
    by (simp add: lacksExpectedKeys_def expectedKeys_def)
  have u: "fst (importData (Some (JObj [(''transactions'', JNum 5)])) alexState)
             = Untyped (JObj [(''transactions'', JNum 5)])"
    by (simp add: importData_def asFinancialData_def nullish_values asList_def)
  show ?thesis
    using importData_malformed [of alexState "JObj [(''foo'', JNum 1)]"]
      importData_malformed [of alexState "JArr []"]
      importData_malformed [of alexState "JObj [(''transactions'', JNum 5)]"] k u
    by (simp add: prod_eq_iff not_objects_lack_keys)
qed

text \<open>
  Claim C9 as stated fails: the document \<^verbatim>\<open>42\<close> is JSON of the wrong shape, and
  importing it over the state of Alex reports success and replaces the balances and the
  transactions.
\<close>

theorem importData_wrong_shape_counterexample:
  "importData (Some (JNum 42)) alexState
     = (Typed clearedState, [saveData alexState, Toast ImportSuccess])
   \<and> chequingBalance clearedState \<noteq> chequingBalance alexState
   \<and> transactions clearedState \<noteq> transactions alexState"
  by (simp add: importData_document asFinancialData_no_keys not_objects_lack_keys
      updateAllData_no_keys)
     (simp add: clearedState_def alexState_eq seedTransactions_def number_ops)

end
